theory Spec2Isabelle
  imports Complex_Main
begin

section \<open>Python strings and dictionaries used by convert\_to\_onnx.py\<close>

text \<open>
  Column names, labels and tag names are Python \<open>str\<close> values; they are modelled as
  \<open>string\<close> (lists of 8-bit characters), so a name is taken to be ASCII text.  The
  string methods the script calls are written out below with Python's behaviour.
\<close>

definition startswith :: "string \<Rightarrow> string \<Rightarrow> bool" where
  \<comment> \<open>\<open>s.startswith(p)\<close>\<close>
  "startswith s p = (take (length p) s = p)"

fun str_replace :: "string \<Rightarrow> string \<Rightarrow> string \<Rightarrow> string" where
  \<comment> \<open>\<open>s.replace(old, new)\<close>: every non-overlapping occurrence of \<open>old\<close>, scanning
      from the left, is replaced; an empty \<open>old\<close> matches before every character and
      at the end\<close>
  "str_replace s old new =
     (if old = [] then new @ concat (map (\<lambda>c. c # new) s)
      else if s = [] then []
      else if startswith s old then new @ str_replace (drop (length old) s) old new
      else hd s # str_replace (tl s) old new)"

declare str_replace.simps [simp del]

definition split_once :: "string \<Rightarrow> char \<Rightarrow> string list" where
  \<comment> \<open>\<open>s.split(sep, 1)\<close> for a one-character separator: at most one split, at the
      first occurrence of \<open>sep\<close>\<close>
  "split_once s sep =
     (case dropWhile (\<lambda>c. c \<noteq> sep) s of
        [] \<Rightarrow> [s]
      | _ # rest \<Rightarrow> [takeWhile (\<lambda>c. c \<noteq> sep) s, rest])"

definition upper_chars :: string where
  "upper_chars = ''ABCDEFGHIJKLMNOPQRSTUVWXYZ''"

definition lower_chars :: string where
  "lower_chars = ''abcdefghijklmnopqrstuvwxyz''"

definition char_lower :: "char \<Rightarrow> char" where
  "char_lower c = (case map_of (zip upper_chars lower_chars) c of Some d \<Rightarrow> d | None \<Rightarrow> c)"

definition lower :: "string \<Rightarrow> string" where
  \<comment> \<open>\<open>s.lower()\<close> on ASCII text\<close>
  "lower s = map char_lower s"

fun str_in :: "string \<Rightarrow> string \<Rightarrow> bool" where
  \<comment> \<open>\<open>sub in s\<close>: \<open>sub\<close> occurs in \<open>s\<close> as a contiguous substring\<close>
  "str_in sub [] = (sub = [])"
| "str_in sub (c # cs) = (startswith (c # cs) sub \<or> str_in sub cs)"

text \<open>
  Matching without regard to case, said directly and without \<open>lower\<close>: two strings are
  the same up to case when they have the same length and, position by position, the
  characters are equal or are the upper-case and the lower-case form of one ASCII letter.
\<close>

definition same_letter :: "char \<Rightarrow> char \<Rightarrow> bool" where
  "same_letter c d =
     (c = d \<or> (c, d) \<in> set (zip upper_chars lower_chars)
            \<or> (d, c) \<in> set (zip upper_chars lower_chars))"

definition same_ignoring_case :: "string \<Rightarrow> string \<Rightarrow> bool" where
  "same_ignoring_case s t = list_all2 same_letter s t"

definition contains_ignoring_case :: "string \<Rightarrow> string \<Rightarrow> bool" where
  \<comment> \<open>some contiguous part of \<open>s\<close> is \<open>word\<close> up to case\<close>
  "contains_ignoring_case s word = (\<exists>ps u ss. s = ps @ u @ ss \<and> same_ignoring_case u word)"

definition begins_ignoring_case :: "string \<Rightarrow> string \<Rightarrow> bool" where
  \<comment> \<open>\<open>s\<close> begins with \<open>word\<close> up to case\<close>
  "begins_ignoring_case s word = (\<exists>u ss. s = u @ ss \<and> same_ignoring_case u word)"

definition py_any :: "('a \<Rightarrow> bool) \<Rightarrow> 'a list \<Rightarrow> bool" where
  \<comment> \<open>\<open>any(p(x) for x in xs)\<close>\<close>
  "py_any p xs = list_ex p xs"

definition digit_chars :: string where
  "digit_chars = ''0123456789''"

fun str_of_nat :: "nat \<Rightarrow> string" where
  \<comment> \<open>the decimal text an f-string gives for a non-negative \<open>int\<close>\<close>
  "str_of_nat n =
     (if n < 10 then [digit_chars ! n]
      else str_of_nat (n div 10) @ [digit_chars ! (n mod 10)])"

declare str_of_nat.simps [simp del]

text \<open>
  A Python \<open>dict\<close> keeps its keys in insertion order; assigning to a key that is
  already present replaces the value in place.  It is modelled as an association list
  without repeated keys.
\<close>

type_synonym ('k, 'v) dict = "('k \<times> 'v) list"

fun dict_set :: "('k, 'v) dict \<Rightarrow> 'k \<Rightarrow> 'v \<Rightarrow> ('k, 'v) dict" where
  \<comment> \<open>\<open>d[k] = v\<close>\<close>
  "dict_set [] k v = [(k, v)]"
| "dict_set ((k', v') # d) k v =
     (if k' = k then (k, v) # d else (k', v') # dict_set d k v)"

definition dict_get :: "('k, 'v) dict \<Rightarrow> 'k \<Rightarrow> 'v option" where
  \<comment> \<open>the value stored under \<open>k\<close>, if any\<close>
  "dict_get d k = map_of d k"

definition dict_get_default :: "('k, 'v) dict \<Rightarrow> 'k \<Rightarrow> 'v \<Rightarrow> 'v" where
  \<comment> \<open>\<open>d.get(k, default)\<close>\<close>
  "dict_get_default d k dflt = (case dict_get d k of Some v \<Rightarrow> v | None \<Rightarrow> dflt)"

section \<open>Encoding info: \<open>generate_encoding_info\<close>\<close>

record has_feature =
  column :: string
  tag :: string

record encoding =
  has_features :: "has_feature list"
  categorical_features :: "(string, (string, string) dict) dict"

definition encoding_step :: "encoding \<Rightarrow> string \<Rightarrow> encoding" where
  \<comment> \<open>the body of the loop over \<open>feature_columns\<close>\<close>
  "encoding_step enc col =
     (if startswith col ''has_'' then
        (let tag_name = str_replace col ''has_'' ''''
         in enc\<lparr>has_features :=
                  has_features enc @ [\<lparr>column = col, tag = ''tags.'' @ tag_name\<rparr>]\<rparr>)
      else
        (case split_once col CHR ''_'' of
           [tag_name, val] \<Rightarrow>
             (let cats = (if dict_get (categorical_features enc) tag_name = None
                          then dict_set (categorical_features enc) tag_name []
                          else categorical_features enc)
              in enc\<lparr>categorical_features :=
                       dict_set cats tag_name
                         (dict_set (dict_get_default cats tag_name []) val col)\<rparr>)
         | _ \<Rightarrow> enc))"

definition generate_encoding_info :: "string list \<Rightarrow> string list \<Rightarrow> encoding" where
  "generate_encoding_info useful_features feature_columns =
     foldl encoding_step \<lparr>has_features = [], categorical_features = []\<rparr> feature_columns"

definition categorical_lookup :: "encoding \<Rightarrow> string \<Rightarrow> string \<Rightarrow> string option" where
  \<comment> \<open>\<open>encoding['categorical_features'][tag_name][value]\<close>, \<open>None\<close> when a key is missing\<close>
  "categorical_lookup enc tag_name val =
     (case dict_get (categorical_features enc) tag_name of
        None \<Rightarrow> None
      | Some vals \<Rightarrow> dict_get vals val)"

section \<open>Values, errors and the model artifact\<close>

text \<open>
  A Python \<open>float\<close>.  The script only compares importances and stores them, so a
  finite float is represented by the real number it denotes.
\<close>

datatype pyfloat = Finite real | PosInf | NegInf | NaN

fun float_gt :: "pyfloat \<Rightarrow> pyfloat \<Rightarrow> bool" where
  \<comment> \<open>\<open>a > b\<close>; every comparison with NaN is false\<close>
  "float_gt NaN _ = False"
| "float_gt _ NaN = False"
| "float_gt (Finite a) (Finite b) = (b < a)"
| "float_gt PosInf PosInf = False"
| "float_gt PosInf _ = True"
| "float_gt NegInf _ = False"
| "float_gt (Finite a) NegInf = True"
| "float_gt (Finite a) PosInf = False"

type_synonym path = "string list"
  \<comment> \<open>an absolute path, as the list of its components; \<open>[]\<close> is the root directory\<close>

text \<open>
  The exceptions a run can meet.  All of them are subclasses of Python's \<open>Exception\<close>;
  \<open>OtherException\<close> stands for any other exception a library raises, with its message.
\<close>

datatype error =
    KeyError string
  | ValueError string
  | IndexError
  | FileNotFoundError path
  | IsADirectoryError path
  | NotADirectoryError path
  | FileExistsError path
  | ImportError
  | OtherException string

text \<open>
  The trained estimator is an opaque object \<open>'e\<close> of the learning library;
  \<open>feature_importances_attr\<close> is its attribute \<open>feature\_importances\_\<close>, \<open>None\<close> when the
  object has no such attribute.
\<close>

record 'e estimator =
  internals :: 'e
  feature_importances_attr :: "pyfloat list option"

datatype key = IntKey int | StrKey string

text \<open>
  \<open>model_data\<close>, the dictionary that \<open>joblib.load\<close> returns.  A field is \<open>None\<close>
  when the key is missing from the dictionary.  The metrics are opaque (\<open>'m\<close>).
\<close>

record ('e, 'm) artifact =
  md_model :: "'e estimator option"
  md_model_name :: "string option"
  md_feature_columns :: "string list option"
  md_useful_features :: "string list option"
  md_metrics :: "'m option"
  md_n_classes :: "int option"
  md_class_mapping :: "(key, string) dict option"

text \<open>
  The configuration document, the dictionary of lines 131 to 143.  Every value of the
  record can be written as JSON, so saving it does not raise.
\<close>

record 'm config =
  cfg_model_name :: string
  cfg_n_classes :: int
  cfg_feature_columns :: "string list"
  cfg_useful_features :: "string list"
  cfg_metrics :: 'm
  cfg_input_name :: string
  cfg_output_names :: "string list"
  cfg_labels :: "string list"
  cfg_class_mapping :: "(int, string) dict"
  cfg_encoding_info :: encoding
  cfg_feature_importances :: "(string, pyfloat) dict"

section \<open>The file system\<close>

datatype 'm content = Bytes string | JsonDoc "'m config"
  \<comment> \<open>a binary file, or the JSON document \<open>json.dump(config, f, indent=2)\<close> writes\<close>

datatype 'm node = Dir | File "'m content"

type_synonym 'm filesystem = "path \<Rightarrow> 'm node option"

definition node_at :: "'m filesystem \<Rightarrow> path \<Rightarrow> 'm node option" where
  "node_at fs p = (if p = [] then Some Dir else fs p)"

definition exists :: "'m filesystem \<Rightarrow> path \<Rightarrow> bool" where
  \<comment> \<open>\<open>os.path.exists(p)\<close>\<close>
  "exists fs p = (node_at fs p \<noteq> None)"

definition isdir :: "'m filesystem \<Rightarrow> path \<Rightarrow> bool" where
  \<comment> \<open>\<open>os.path.isdir(p)\<close>\<close>
  "isdir fs p = (node_at fs p = Some Dir)"

definition dirname :: "path \<Rightarrow> path" where
  \<comment> \<open>\<open>os.path.dirname(p)\<close>; the root is its own parent\<close>
  "dirname p = butlast p"

definition parent_error :: "'m filesystem \<Rightarrow> path \<Rightarrow> error option" where
  \<comment> \<open>why an entry cannot be created at \<open>p\<close>: the parent is missing or is a file\<close>
  "parent_error fs p =
     (case node_at fs (dirname p) of
        None \<Rightarrow> Some (FileNotFoundError p)
      | Some (File _) \<Rightarrow> Some (NotADirectoryError p)
      | Some Dir \<Rightarrow> None)"

definition mkdir :: "path \<Rightarrow> 'm filesystem \<Rightarrow> (error + unit) \<times> 'm filesystem" where
  \<comment> \<open>\<open>os.mkdir(p)\<close>\<close>
  "mkdir p fs =
     (if exists fs p then (Inl (FileExistsError p), fs)
      else case parent_error fs p of
             Some e \<Rightarrow> (Inl e, fs)
           | None \<Rightarrow> (Inr (), fs(p \<mapsto> Dir)))"

function makedirs :: "path \<Rightarrow> 'm filesystem \<Rightarrow> (error + unit) \<times> 'm filesystem" where
  \<comment> \<open>\<open>os.makedirs(p, exist_ok=True)\<close>: the missing ancestors are created first; an
      error of the final \<open>mkdir\<close> is ignored when \<open>p\<close> is a directory\<close>
  "makedirs p fs =
     (if p = [] then (Inr (), fs)
      else
        (case (if dirname p \<noteq> [] \<and> \<not> exists fs (dirname p)
               then (case makedirs (dirname p) fs of
                       (Inl (FileExistsError _), fs') \<Rightarrow> (Inr (), fs')
                     | r \<Rightarrow> r)
               else (Inr (), fs)) of
           (Inl e, fs1) \<Rightarrow> (Inl e, fs1)
         | (Inr _, fs1) \<Rightarrow>
             (case mkdir p fs1 of
                (Inl e, fs2) \<Rightarrow> (if isdir fs2 p then (Inr (), fs2) else (Inl e, fs2))
              | (Inr _, fs2) \<Rightarrow> (Inr (), fs2))))"
  by pat_completeness auto
termination
  by (relation "measure (\<lambda>(p, fs). length p)") (auto simp: dirname_def)

declare makedirs.simps [simp del]

definition write_file :: "path \<Rightarrow> 'm content \<Rightarrow> 'm filesystem \<Rightarrow> (error + unit) \<times> 'm filesystem" where
  \<comment> \<open>\<open>with open(p, 'w') as f: f.write(c)\<close>: creates or overwrites the file\<close>
  "write_file p c fs =
     (if isdir fs p then (Inl (IsADirectoryError p), fs)
      else case parent_error fs p of
             Some e \<Rightarrow> (Inl e, fs)
           | None \<Rightarrow> (Inr (), fs(p \<mapsto> File c)))"

definition read_file :: "'m filesystem \<Rightarrow> path \<Rightarrow> error + 'm content" where
  \<comment> \<open>opening \<open>p\<close> for reading\<close>
  "read_file fs p =
     (case node_at fs p of
        None \<Rightarrow> Inl (FileNotFoundError p)
      | Some Dir \<Rightarrow> Inl (IsADirectoryError p)
      | Some (File c) \<Rightarrow> Inr c)"

section \<open>External libraries\<close>

text \<open>
  The graph converter, the deserializer and the inference runtime are third-party
  code.  Every result below holds for whatever they compute: they are parameters of the
  model, collected in one record.
\<close>

datatype tensor_type =
    FloatTensorType "nat option list"
  | DoubleTensorType "nat option list"
  | Int64TensorType "nat option list"
  \<comment> \<open>a declared input type with its shape; \<open>None\<close> is an unbounded dimension.
      \<open>FloatTensorType\<close> is the converter's 32-bit float tensor type\<close>

record 'e convert_call =
  \<comment> \<open>the arguments of one call of \<open>convert_sklearn\<close>\<close>
  cc_model :: "'e estimator"
  cc_initial_types :: "(string \<times> tensor_type) list"
  cc_target_opset :: int
  cc_options :: "('e estimator \<times> (string \<times> bool) list) list"
    \<comment> \<open>\<open>{id(model): {...}}\<close>: the options, keyed by the object they apply to\<close>

datatype graph_output = LabelOutput | ProbabilityTensor | ProbabilityDictSequence
  \<comment> \<open>an output of a converted classifier graph: the predicted label, the class
      probabilities as one tensor, or the class probabilities as a sequence of
      dictionaries from class to probability (the converter's \<open>zipmap\<close> form)\<close>

record onnx_model =
  \<comment> \<open>the object \<open>convert_sklearn\<close> returns: the outputs of its graph in order, and the
      bytes \<open>SerializeToString()\<close> gives\<close>
  graph_outputs :: "graph_output list"
  SerializeToString :: string

record session =
  \<comment> \<open>an \<open>InferenceSession\<close>: the names of its inputs, and \<open>run(None, {name: input})\<close>
      with the printed form of each output\<close>
  get_inputs :: "string list"
  run :: "string \<Rightarrow> real list list \<Rightarrow> error + string list"

record ('e, 'm) externals =
  unpickle :: "'m content \<Rightarrow> error + ('e, 'm) artifact"
    \<comment> \<open>what \<open>joblib.load\<close> makes of a file's content\<close>
  int_of_str :: "string \<Rightarrow> error + int"
    \<comment> \<open>\<open>int(k)\<close> for a string \<open>k\<close>\<close>
  convert_sklearn :: "'e convert_call \<Rightarrow> error + onnx_model"
    \<comment> \<open>the converted graph, or the exception of the converter\<close>
  import_onnxruntime :: "error option"
    \<comment> \<open>the exception of \<open>import onnxruntime\<close>, if it raises\<close>
  InferenceSession :: "'m content \<Rightarrow> error + session"
    \<comment> \<open>the session the runtime builds from a graph file\<close>

definition zipmap_disabled :: "'e convert_call \<Rightarrow> bool" where
  \<comment> \<open>the options of the call switch \<open>zipmap\<close> off for the estimator being converted\<close>
  "zipmap_disabled c =
     (case map_of (cc_options c) (cc_model c) of
        None \<Rightarrow> False
      | Some opts \<Rightarrow> map_of opts ''zipmap'' = Some False)"

definition honours_zipmap_option :: "('e, 'm) externals \<Rightarrow> bool" where
  \<comment> \<open>what the script relies on at lines 62 and 63 (\<open>zipmap=False\<close> gives a tensor output
      instead of a dictionary): a graph converted with \<open>zipmap\<close> off has exactly two
      outputs, the label and then the probability tensor\<close>
  "honours_zipmap_option ext =
     (\<forall>c g. zipmap_disabled c \<and> convert_sklearn ext c = Inr g \<longrightarrow>
        graph_outputs g = [LabelOutput, ProbabilityTensor])"

section \<open>The state of a run\<close>

datatype 'm msg =
    LoadingModel
  | ModelPathIs path
  | ModelType string
  | NumberOfClasses int
  | ClassMappingIs "(int, string) dict"
  | NumberOfFeatures nat
  | TrainingMetrics 'm
  | ConvertingToOnnx
  | OnnxSaved path
  | ExtractedImportances nat
  | ComputingImportances
  | AssignedImportances nat
  | ConfigSaved path
  | TestingInference
  | TestSuccessful
  | Prediction string
  | Probabilities string
  | OrtNotInstalled
  | TestInferenceError error
  | Done
  \<comment> \<open>the lines the script prints, each with the values it formats\<close>

record ('e, 'm) world =
  files :: "'m filesystem"
  stdout :: "'m msg list"
  conversions :: "'e convert_call list"
    \<comment> \<open>the calls made to the graph converter, oldest first\<close>

type_synonym ('a, 'e, 'm) prog = "('e, 'm) world \<Rightarrow> (error + 'a) \<times> ('e, 'm) world"
  \<comment> \<open>a statement: it raises (\<open>Inl\<close>) or returns (\<open>Inr\<close>), and leaves a new state\<close>

definition and_then :: "('a, 'e, 'm) prog \<Rightarrow> ('a \<Rightarrow> ('b, 'e, 'm) prog) \<Rightarrow> ('b, 'e, 'm) prog" where
  \<comment> \<open>sequencing: an exception of the first statement ends the run\<close>
  "and_then m f w = (case m w of (Inl e, w') \<Rightarrow> (Inl e, w') | (Inr a, w') \<Rightarrow> f a w')"

definition result :: "error + 'a \<Rightarrow> ('a, 'e, 'm) prog" where
  \<comment> \<open>a computation without effect\<close>
  "result r w = (r, w)"

definition print :: "'m msg \<Rightarrow> (unit, 'e, 'm) prog" where
  "print m w = (Inr (), w\<lparr>stdout := stdout w @ [m]\<rparr>)"

definition on_files ::
  "('m filesystem \<Rightarrow> (error + 'a) \<times> 'm filesystem) \<Rightarrow> ('a, 'e, 'm) prog" where
  \<comment> \<open>a file-system operation, run on the files of the state\<close>
  "on_files f w = (case f (files w) of (r, fs') \<Rightarrow> (r, w\<lparr>files := fs'\<rparr>))"

definition reading :: "('m filesystem \<Rightarrow> error + 'a) \<Rightarrow> ('a, 'e, 'm) prog" where
  \<comment> \<open>a computation that reads the files of the state and changes nothing\<close>
  "reading f w = (f (files w), w)"

definition getitem :: "string \<Rightarrow> 'a option \<Rightarrow> error + 'a" where
  \<comment> \<open>\<open>model_data[name]\<close>\<close>
  "getitem name field = (case field of None \<Rightarrow> Inl (KeyError name) | Some v \<Rightarrow> Inr v)"

section \<open>Module level: paths\<close>

definition SCRIPT_DIR :: "path \<Rightarrow> path" where
  \<comment> \<open>the argument is \<open>os.path.abspath(__file__)\<close>\<close>
  "SCRIPT_DIR script_file = dirname script_file"

definition PROJECT_ROOT :: "path \<Rightarrow> path" where
  "PROJECT_ROOT script_file = dirname (SCRIPT_DIR script_file)"

definition candidate_paths :: "path \<Rightarrow> path list" where
  \<comment> \<open>the three model files, in the order the module tries them\<close>
  "candidate_paths script_file =
     [PROJECT_ROOT script_file @ [''accessibility_model_geographic.joblib''],
      PROJECT_ROOT script_file @ [''accessibility_model_worldwide.joblib''],
      PROJECT_ROOT script_file @ [''accessibility_model_3class_best_overall.joblib'']]"

definition MODEL_PATH :: "path \<Rightarrow> 'm filesystem \<Rightarrow> path" where
  "MODEL_PATH script_file fs =
     (let p = PROJECT_ROOT script_file @ [''accessibility_model_geographic.joblib''];
          p = (if \<not> exists fs p
               then PROJECT_ROOT script_file @ [''accessibility_model_worldwide.joblib'']
               else p);
          p = (if \<not> exists fs p
               then PROJECT_ROOT script_file @ [''accessibility_model_3class_best_overall.joblib'']
               else p)
      in p)"

definition ONNX_OUTPUT_PATH :: "path \<Rightarrow> path" where
  "ONNX_OUTPUT_PATH script_file =
     PROJECT_ROOT script_file @ [''public'', ''models'', ''accessibility_model.onnx'']"

definition CONFIG_OUTPUT_PATH :: "path \<Rightarrow> path" where
  "CONFIG_OUTPUT_PATH script_file =
     PROJECT_ROOT script_file @ [''app'', ''api'', ''accessibility-predict'', ''model_config.json'']"

section \<open>\<open>main\<close>, step by step\<close>

subsection \<open>Loading the artifact\<close>

definition joblib_load ::
  "('e, 'm) externals \<Rightarrow> 'm filesystem \<Rightarrow> path \<Rightarrow> error + ('e, 'm) artifact" where
  \<comment> \<open>\<open>joblib.load(path)\<close>: the file is opened, then deserialized\<close>
  "joblib_load ext fs p =
     (case read_file fs p of Inl e \<Rightarrow> Inl e | Inr c \<Rightarrow> unpickle ext c)"

definition py_int :: "('e, 'm) externals \<Rightarrow> key \<Rightarrow> error + int" where
  \<comment> \<open>\<open>int(k)\<close>\<close>
  "py_int ext k = (case k of IntKey i \<Rightarrow> Inr i | StrKey s \<Rightarrow> int_of_str ext s)"

fun int_keys ::
  "('e, 'm) externals \<Rightarrow> (key, string) dict \<Rightarrow> (int, string) dict \<Rightarrow> error + (int, string) dict" where
  \<comment> \<open>\<open>{int(k): v for k, v in class_mapping.items()}\<close>, with the dictionary built so far\<close>
  "int_keys ext [] acc = Inr acc"
| "int_keys ext ((k, v) # items) acc =
     (case py_int ext k of
        Inl e \<Rightarrow> Inl e
      | Inr i \<Rightarrow> int_keys ext items (dict_set acc i v))"

record ('e, 'm) loaded =
  \<comment> \<open>the local variables of \<open>main\<close> after the artifact is read\<close>
  model :: "'e estimator"
  model_name :: string
  feature_cols :: "string list"
  useful_feats :: "string list"
  metrics :: 'm
  n_classes :: int
  class_mapping :: "(int, string) dict"

definition read_model_data :: "('e, 'm) externals \<Rightarrow> ('e, 'm) artifact \<Rightarrow> error + ('e, 'm) loaded" where
  \<comment> \<open>lines 38 to 49: the fields of \<open>model_data\<close>, the two defaults, the integer keys\<close>
  "read_model_data ext model_data =
     (case getitem ''model'' (md_model model_data) of Inl e \<Rightarrow> Inl e | Inr m \<Rightarrow>
      case getitem ''model_name'' (md_model_name model_data) of Inl e \<Rightarrow> Inl e | Inr name \<Rightarrow>
      case getitem ''feature_columns'' (md_feature_columns model_data) of Inl e \<Rightarrow> Inl e | Inr fc \<Rightarrow>
      case getitem ''useful_features'' (md_useful_features model_data) of Inl e \<Rightarrow> Inl e | Inr uf \<Rightarrow>
      case getitem ''metrics'' (md_metrics model_data) of Inl e \<Rightarrow> Inl e | Inr mt \<Rightarrow>
        (let n = (case md_n_classes model_data of Some n \<Rightarrow> n | None \<Rightarrow> 2);
             cm = (case md_class_mapping model_data of
                     Some cm \<Rightarrow> cm
                   | None \<Rightarrow> [(IntKey 0, ''not_accessible''), (IntKey 1, ''accessible'')])
         in case int_keys ext cm [] of
              Inl e \<Rightarrow> Inl e
            | Inr cm' \<Rightarrow>
                Inr \<lparr>model = m, model_name = name, feature_cols = fc, useful_feats = uf,
                     metrics = mt, n_classes = n, class_mapping = cm'\<rparr>))"

subsection \<open>Converting the estimator\<close>

definition conversion_call :: "'e estimator \<Rightarrow> string list \<Rightarrow> 'e convert_call" where
  \<comment> \<open>lines 59 to 69: the arguments passed to \<open>convert_sklearn\<close>\<close>
  "conversion_call m feature_columns =
     (let initial_type = [(''float_input'', FloatTensorType [None, Some (length feature_columns)])]
      in \<lparr>cc_model = m, cc_initial_types = initial_type, cc_target_opset = 12,
          cc_options = [(m, [(''zipmap'', False)])]\<rparr>)"

definition call_convert_sklearn ::
  "('e, 'm) externals \<Rightarrow> 'e convert_call \<Rightarrow> (onnx_model, 'e, 'm) prog" where
  \<comment> \<open>the call itself: it is recorded in the state, and the library answers\<close>
  "call_convert_sklearn ext c w = (convert_sklearn ext c, w\<lparr>conversions := conversions w @ [c]\<rparr>)"

subsection \<open>Feature importances\<close>

fun native_importances ::
  "(nat \<times> pyfloat) list \<Rightarrow> string list \<Rightarrow> (string, pyfloat) dict \<Rightarrow> error + (string, pyfloat) dict" where
  \<comment> \<open>the loop over \<open>enumerate(importances)\<close>; \<open>feature_columns[idx]\<close> raises when
      \<open>idx\<close> is out of range\<close>
  "native_importances [] feature_columns fi = Inr fi"
| "native_importances ((idx, importance) # rest) feature_columns fi =
     (if float_gt importance (Finite 0) then
        (if idx < length feature_columns
         then native_importances rest feature_columns (dict_set fi (feature_columns ! idx) importance)
         else Inl IndexError)
      else native_importances rest feature_columns fi)"

definition accessibility_positive :: "string list" where
  "accessibility_positive =
     [''automatic_door'', ''toilets_wheelchair'', ''ramp'', ''elevator'', ''tactile_paving'',
      ''hearing_loop'', ''wheelchair'', ''accessible'', ''ground'', ''entrance'', ''door'']"

definition accessibility_negative :: "string list" where
  "accessibility_negative = [''stairs'', ''step_count'', ''barrier'', ''kerb'', ''upper'', ''basement'']"

definition place_type :: "string list" where
  "place_type = [''amenity'', ''shop'', ''tourism'', ''healthcare'', ''building'', ''leisure'']"

definition column_importance :: "string \<Rightarrow> pyfloat" where
  \<comment> \<open>lines 104 to 114: the value of \<open>importance\<close> when line 116 is reached\<close>
  "column_importance col =
     (let col_lower = lower col
      in if py_any (\<lambda>pos. str_in pos col_lower) accessibility_positive then Finite 0.15
         else if py_any (\<lambda>neg. str_in neg col_lower) accessibility_negative then Finite 0.12
         else if py_any (\<lambda>pt. str_in pt col_lower) place_type then Finite 0.08
         else if startswith col_lower ''has_'' then Finite 0.05
         else Finite 0.01)"

definition heuristic_step :: "(string, pyfloat) dict \<Rightarrow> string \<Rightarrow> (string, pyfloat) dict" where
  \<comment> \<open>the body of the loop over \<open>feature_columns\<close>, lines 104 to 117\<close>
  "heuristic_step fi col =
     (let importance = column_importance col
      in if float_gt importance (Finite 0.01) then dict_set fi col importance else fi)"

definition heuristic_importances :: "string list \<Rightarrow> (string, pyfloat) dict" where
  "heuristic_importances feature_columns = foldl heuristic_step [] feature_columns"

definition extract_importances ::
  "'e estimator \<Rightarrow> string list \<Rightarrow> ((string, pyfloat) dict, 'e, 'm) prog" where
  \<comment> \<open>lines 81 to 121.  Column names are strings, so nothing in the \<open>try\<close> block of the
      second branch raises and its handler is never entered\<close>
  "extract_importances m feature_columns =
     (case feature_importances_attr m of
        Some importances \<Rightarrow>
          and_then (result (native_importances (enumerate 0 importances) feature_columns [])) (\<lambda>fi.
          and_then (print (ExtractedImportances (length fi))) (\<lambda>_.
          result (Inr fi)))
      | None \<Rightarrow>
          and_then (print ComputingImportances) (\<lambda>_.
          and_then (result (Inr (heuristic_importances feature_columns))) (\<lambda>fi.
          and_then (print (AssignedImportances (length fi))) (\<lambda>_.
          result (Inr fi)))))"

subsection \<open>Labels and the configuration document\<close>

definition make_labels :: "int \<Rightarrow> (int, string) dict \<Rightarrow> string list" where
  \<comment> \<open>lines 124 to 127\<close>
  "make_labels n cm =
     (if n = 3
      then map (\<lambda>i. dict_get_default cm (int i) (''class_'' @ str_of_nat i)) [0..<3]
      else [''not_accessible'', ''accessible''])"

definition make_config ::
  "('e, 'm) loaded \<Rightarrow> string list \<Rightarrow> (string, pyfloat) dict \<Rightarrow> 'm config" where
  \<comment> \<open>lines 131 to 143\<close>
  "make_config l labels fi =
     \<lparr>cfg_model_name = model_name l,
      cfg_n_classes = n_classes l,
      cfg_feature_columns = feature_cols l,
      cfg_useful_features = useful_feats l,
      cfg_metrics = metrics l,
      cfg_input_name = ''float_input'',
      cfg_output_names = [''output_label'', ''output_probability''],
      cfg_labels = labels,
      cfg_class_mapping = class_mapping l,
      cfg_encoding_info = generate_encoding_info (useful_feats l) (feature_cols l),
      cfg_feature_importances = fi\<rparr>"

subsection \<open>The smoke test\<close>

definition zeros :: "nat \<Rightarrow> nat \<Rightarrow> real list list" where
  \<comment> \<open>\<open>np.zeros((rows, cols), dtype=np.float32)\<close>\<close>
  "zeros rows cols = replicate rows (replicate cols 0)"

definition open_session ::
  "('e, 'm) externals \<Rightarrow> 'm filesystem \<Rightarrow> path \<Rightarrow> error + session" where
  \<comment> \<open>\<open>ort.InferenceSession(path)\<close>: the graph file is read, then loaded\<close>
  "open_session ext fs p =
     (case read_file fs p of Inl e \<Rightarrow> Inl e | Inr c \<Rightarrow> InferenceSession ext c)"

definition test_inference ::
  "('e, 'm) externals \<Rightarrow> path \<Rightarrow> nat \<Rightarrow> (unit, 'e, 'm) prog" where
  \<comment> \<open>the body of the \<open>try\<close> block, lines 152 to 164\<close>
  "test_inference ext onnx_path n =
     and_then (result (case import_onnxruntime ext of Some e \<Rightarrow> Inl e | None \<Rightarrow> Inr ())) (\<lambda>_.
     and_then (reading (\<lambda>fs. open_session ext fs onnx_path)) (\<lambda>session.
     and_then (result (case get_inputs session of
                         [] \<Rightarrow> Inl IndexError
                       | name # _ \<Rightarrow> Inr name)) (\<lambda>input_name.
     and_then (result (run session input_name (zeros 1 n))) (\<lambda>results.
     and_then (print TestSuccessful) (\<lambda>_.
     and_then (result (case results of [] \<Rightarrow> Inl IndexError | r0 # _ \<Rightarrow> Inr r0)) (\<lambda>r0.
     and_then (print (Prediction r0)) (\<lambda>_.
     and_then (result (case results of _ # r1 # _ \<Rightarrow> Inr r1 | _ \<Rightarrow> Inl IndexError)) (\<lambda>r1.
     print (Probabilities r1)))))))))"

definition smoke_test ::
  "('e, 'm) externals \<Rightarrow> path \<Rightarrow> nat \<Rightarrow> (unit, 'e, 'm) prog" where
  \<comment> \<open>the \<open>try\<close> statement with its two handlers, lines 151 to 169\<close>
  "smoke_test ext onnx_path n w =
     (case test_inference ext onnx_path n w of
        (Inr u, w') \<Rightarrow> (Inr u, w')
      | (Inl e, w') \<Rightarrow>
          (if e = ImportError then print OrtNotInstalled w'
           else print (TestInferenceError e) w'))"

subsection \<open>The whole run\<close>

definition write_outputs ::
  "('e, 'm) externals \<Rightarrow> path \<Rightarrow> path \<Rightarrow> (('e, 'm) loaded, 'e, 'm) prog" where
  \<comment> \<open>\<open>main()\<close>, lines 34 to 147: everything up to the saved configuration document.  The
      second path is the value of the global \<open>MODEL_PATH\<close>; the result is the local
      variables read from the artifact\<close>
  "write_outputs ext script_file model_path =
     and_then (print LoadingModel) (\<lambda>_.
     and_then (print (ModelPathIs model_path)) (\<lambda>_.
     and_then (reading (\<lambda>fs. joblib_load ext fs model_path)) (\<lambda>model_data.
     and_then (result (read_model_data ext model_data)) (\<lambda>l.
     and_then (print (ModelType (model_name l))) (\<lambda>_.
     and_then (print (NumberOfClasses (n_classes l))) (\<lambda>_.
     and_then (print (ClassMappingIs (class_mapping l))) (\<lambda>_.
     and_then (print (NumberOfFeatures (length (feature_cols l)))) (\<lambda>_.
     and_then (print (TrainingMetrics (metrics l))) (\<lambda>_.
     and_then (print ConvertingToOnnx) (\<lambda>_.
     and_then (call_convert_sklearn ext (conversion_call (model l) (feature_cols l))) (\<lambda>onnx_model.
     and_then (on_files (makedirs (dirname (ONNX_OUTPUT_PATH script_file)))) (\<lambda>_.
     and_then (on_files (makedirs (dirname (CONFIG_OUTPUT_PATH script_file)))) (\<lambda>_.
     and_then (on_files (write_file (ONNX_OUTPUT_PATH script_file)
                           (Bytes (SerializeToString onnx_model)))) (\<lambda>_.
     and_then (print (OnnxSaved (ONNX_OUTPUT_PATH script_file))) (\<lambda>_.
     and_then (extract_importances (model l) (feature_cols l)) (\<lambda>feature_importances.
     and_then (result (Inr (make_labels (n_classes l) (class_mapping l)))) (\<lambda>labels.
     and_then (result (Inr (make_config l labels feature_importances))) (\<lambda>config.
     and_then (on_files (write_file (CONFIG_OUTPUT_PATH script_file) (JsonDoc config))) (\<lambda>_.
     and_then (print (ConfigSaved (CONFIG_OUTPUT_PATH script_file))) (\<lambda>_.
     result (Inr l)))))))))))))))))))))"

definition main :: "('e, 'm) externals \<Rightarrow> path \<Rightarrow> path \<Rightarrow> (unit, 'e, 'm) prog" where
  \<comment> \<open>\<open>main()\<close>: the outputs, then the smoke test of lines 149 to 171\<close>
  "main ext script_file model_path =
     and_then (write_outputs ext script_file model_path) (\<lambda>l.
     and_then (print TestingInference) (\<lambda>_.
     and_then (smoke_test ext (ONNX_OUTPUT_PATH script_file) (length (feature_cols l))) (\<lambda>_.
     print Done)))"

definition script :: "('e, 'm) externals \<Rightarrow> path \<Rightarrow> (unit, 'e, 'm) prog" where
  \<comment> \<open>running the file: the module level fixes \<open>MODEL_PATH\<close>, then \<open>main()\<close> runs\<close>
  "script ext script_file w = main ext script_file (MODEL_PATH script_file (files w)) w"

definition written_config :: "path \<Rightarrow> ('e, 'm) world \<Rightarrow> 'm config option" where
  \<comment> \<open>the configuration document found at \<open>CONFIG_OUTPUT_PATH\<close>\<close>
  "written_config script_file w =
     (case files w (CONFIG_OUTPUT_PATH script_file) of
        Some (File (JsonDoc c)) \<Rightarrow> Some c
      | _ \<Rightarrow> None)"

section \<open>Proof vocabulary and a sample run\<close>

text \<open>
  Two predicates on statements, used to show which steps leave the files and the
  converter log alone, and a small concrete run on which the results below are tried.
\<close>

definition keeps_files :: "('a, 'e, 'm) prog \<Rightarrow> bool" where
  "keeps_files m = (\<forall>w r w'. m w = (r, w') \<longrightarrow> files w' = files w)"

definition keeps_conversions :: "('a, 'e, 'm) prog \<Rightarrow> bool" where
  "keeps_conversions m = (\<forall>w r w'. m w = (r, w') \<longrightarrow> conversions w' = conversions w)"

definition example_file :: path where
  "example_file = [''repo'', ''ml-service'', ''convert_to_onnx.py'']"

definition heuristic_artifact :: "(unit, unit) artifact" where
  "heuristic_artifact =
     \<lparr>md_model = Some \<lparr>internals = (), feature_importances_attr = None\<rparr>,
      md_model_name = Some ''HistGradientBoostingClassifier'',
      md_feature_columns =
        Some [''has_ramp'', ''stairs_present'', ''random_flag_7'', ''amenity_cafe''],
      md_useful_features = Some [''ramp'', ''amenity''],
      md_metrics = Some (),
      md_n_classes = Some 3,
      md_class_mapping =
        Some [(IntKey 0, ''not_accessible''), (IntKey 1, ''limited''), (IntKey 2, ''accessible'')]\<rparr>"

definition native_artifact :: "(unit, unit) artifact" where
  "native_artifact =
     \<lparr>md_model =
        Some \<lparr>internals = (), feature_importances_attr = Some [Finite 0.2, Finite 0]\<rparr>,
      md_model_name = Some ''RandomForestClassifier'',
      md_feature_columns = Some [''has_ramp'', ''amenity_cafe''],
      md_useful_features = Some [''ramp'', ''amenity''],
      md_metrics = Some (),
      md_n_classes = Some 2,
      md_class_mapping = Some [(IntKey 0, ''no''), (IntKey 1, ''yes'')]\<rparr>"

definition example_externals :: "(unit, unit) artifact \<Rightarrow> (unit, unit) externals" where
  "example_externals a =
     \<lparr>unpickle = (\<lambda>c. Inr a),
      int_of_str = (\<lambda>s. Inl (ValueError s)),
      convert_sklearn =
        (\<lambda>c. Inr \<lparr>graph_outputs =
                      (if zipmap_disabled c then [LabelOutput, ProbabilityTensor]
                       else [LabelOutput, ProbabilityDictSequence]),
                    SerializeToString = ''graph''\<rparr>),
      import_onnxruntime = Some ImportError,
      InferenceSession = (\<lambda>c. Inl (OtherException ''unavailable''))\<rparr>"

definition example_world :: "(unit, unit) world" where
  "example_world =
     \<lparr>files = [[''repo''] \<mapsto> Dir,
               [''repo'', ''accessibility_model_worldwide.joblib''] \<mapsto> File (Bytes ''pickle'')],
      stdout = [], conversions = []\<rparr>"

definition empty_world :: "(unit, unit) world" where
  "empty_world = \<lparr>files = Map.empty, stdout = [], conversions = []\<rparr>"

definition mixed_case_artifact :: "(unit, unit) artifact" where
  "mixed_case_artifact =
     \<lparr>md_model = Some \<lparr>internals = (), feature_importances_attr = None\<rparr>,
      md_model_name = Some ''HistGradientBoostingClassifier'',
      md_feature_columns =
        Some [''has_ramp'', ''stairs_present'', ''random_flag_7'', ''HAS_RAMP'',
              ''Stairs_Present'', ''Shop_X'', ''Has_Wifi'', ''RANDOM_FLAG_7''],
      md_useful_features = Some [''ramp''],
      md_metrics = Some (),
      md_n_classes = None,
      md_class_mapping = None\<rparr>"

definition broken_runtime_externals :: "(unit, unit) artifact \<Rightarrow> (unit, unit) externals" where
  "broken_runtime_externals a = (example_externals a)\<lparr>import_onnxruntime := None\<rparr>"

section \<open>Strings and dictionaries: basic facts\<close>

lemma dict_get_set: "dict_get (dict_set d k v) k' = (if k' = k then Some v else dict_get d k')"
  by (induction d k v rule: dict_set.induct) (auto simp: dict_get_def)

lemma dict_get_empty: "dict_get [] k = None"
  by (simp add: dict_get_def)

lemma split_once_two:
  "split_once s sep = [a, b] \<longleftrightarrow> s = a @ sep # b \<and> sep \<notin> set a"
proof
  assume h: "split_once s sep = [a, b]"
  then obtain x where d: "dropWhile (\<lambda>c. c \<noteq> sep) s = x # b" and a: "a = takeWhile (\<lambda>c. c \<noteq> sep) s"
    by (auto simp: split_once_def split: list.splits)
  from d have "x = sep" using hd_dropWhile[of "\<lambda>c. c \<noteq> sep" s] by auto
  moreover have "s = takeWhile (\<lambda>c. c \<noteq> sep) s @ dropWhile (\<lambda>c. c \<noteq> sep) s" by simp
  moreover have "sep \<notin> set (takeWhile (\<lambda>c. c \<noteq> sep) s)" using set_takeWhileD by fastforce
  ultimately show "s = a @ sep # b \<and> sep \<notin> set a" using d a by metis
next
  assume h: "s = a @ sep # b \<and> sep \<notin> set a"
  then have all: "\<forall>x\<in>set a. x \<noteq> sep" by auto
  have "takeWhile (\<lambda>c. c \<noteq> sep) (a @ sep # b) = a"
    using all by (simp add: takeWhile_append2)
  moreover have "dropWhile (\<lambda>c. c \<noteq> sep) (a @ sep # b) = sep # b"
    using all by (simp add: dropWhile_append2)
  ultimately show "split_once s sep = [a, b]"
    using h by (simp add: split_once_def)
qed

lemma split_once_none: "sep \<notin> set s \<Longrightarrow> split_once s sep = [s]"
proof -
  assume "sep \<notin> set s"
  then have d: "dropWhile (\<lambda>c. c \<noteq> sep) s = []" by (auto simp: dropWhile_eq_Nil_conv)
  show ?thesis unfolding split_once_def d by simp
qed

lemma split_once_some: "sep \<in> set s \<Longrightarrow> \<exists>a b. split_once s sep = [a, b]"
  by (auto simp: split_once_def dropWhile_eq_Nil_conv split: list.splits)

lemma split_once_cases: "(\<exists>a b. split_once s sep = [a, b]) \<or> split_once s sep = [s]"
  by (auto simp: split_once_def split: list.splits)

lemma startswith_iff: "startswith s p \<longleftrightarrow> (\<exists>ss. s = p @ ss)"
  unfolding startswith_def by (metis append_eq_conv_conj append_take_drop_id)

lemma str_in_iff: "str_in sub s \<longleftrightarrow> (\<exists>ps ss. s = ps @ sub @ ss)"
proof (induction s)
  case Nil
  then show ?case by auto
next
  case (Cons c cs)
  have "(\<exists>ps ss. c # cs = ps @ sub @ ss) \<longleftrightarrow> (\<exists>ss. c # cs = sub @ ss) \<or> (\<exists>ps ss. cs = ps @ sub @ ss)"
  proof
    assume "\<exists>ps ss. c # cs = ps @ sub @ ss"
    then obtain ps ss where e: "c # cs = ps @ sub @ ss" by blast
    show "(\<exists>ss. c # cs = sub @ ss) \<or> (\<exists>ps ss. cs = ps @ sub @ ss)"
    proof (cases ps)
      case Nil
      with e show ?thesis by auto
    next
      case (Cons p ps')
      with e have "cs = ps' @ sub @ ss" by simp
      then show ?thesis by blast
    qed
  next
    assume "(\<exists>ss. c # cs = sub @ ss) \<or> (\<exists>ps ss. cs = ps @ sub @ ss)"
    then show "\<exists>ps ss. c # cs = ps @ sub @ ss"
    proof
      assume "\<exists>ss. c # cs = sub @ ss"
      then obtain ss where "c # cs = [] @ sub @ ss" by auto
      then show ?thesis by blast
    next
      assume "\<exists>ps ss. cs = ps @ sub @ ss"
      then obtain ps ss where "c # cs = (c # ps) @ sub @ ss" by auto
      then show ?thesis by blast
    qed
  qed
  then show ?case using Cons by (simp add: startswith_iff)
qed

section \<open>The encoding loop, one column at a time\<close>

lemma categorical_lookup_step:
  "categorical_lookup (encoding_step enc col) t v =
     (if \<not> startswith col ''has_'' \<and> split_once col CHR ''_'' = [t, v] then Some col
      else categorical_lookup enc t v)"
proof (cases "startswith col ''has_''")
  case True
  then show ?thesis by (simp add: encoding_step_def categorical_lookup_def Let_def)
next
  case False
  from split_once_cases [of col "CHR ''_''"] show ?thesis
  proof
    assume "\<exists>a b. split_once col CHR ''_'' = [a, b]"
    then obtain a b where ab: "split_once col CHR ''_'' = [a, b]" by blast
    show ?thesis using False ab
      by (auto simp: encoding_step_def categorical_lookup_def Let_def dict_get_set dict_get_empty
          dict_get_default_def split: option.splits)
  next
    assume "split_once col CHR ''_'' = [col]"
    then show ?thesis using False
      by (simp add: encoding_step_def)
  qed
qed

lemma has_features_step:
  "has_features (encoding_step enc col) =
     has_features enc @
       (if startswith col ''has_''
        then [\<lparr>column = col, tag = ''tags.'' @ str_replace col ''has_'' ''''\<rparr>] else [])"
proof (cases "startswith col ''has_''")
  case True
  then show ?thesis by (simp add: encoding_step_def Let_def)
next
  case False
  from split_once_cases [of col "CHR ''_''"] show ?thesis
    using False by (auto simp: encoding_step_def Let_def)
qed

lemma categorical_lookup_foldl:
  "categorical_lookup (foldl encoding_step enc cols) t v =
     (if t @ CHR ''_'' # v \<in> set cols \<and> CHR ''_'' \<notin> set t \<and> \<not> startswith (t @ CHR ''_'' # v) ''has_''
      then Some (t @ CHR ''_'' # v)
      else categorical_lookup enc t v)"
proof (induction cols rule: rev_induct)
  case Nil
  then show ?case by simp
next
  case (snoc col cols)
  show ?case
    unfolding foldl_append foldl_Cons foldl_Nil categorical_lookup_step snoc.IH
    by (auto simp: split_once_two)
qed

lemma has_features_foldl:
  "has_features (foldl encoding_step enc cols) =
     has_features enc @
       map (\<lambda>col. \<lparr>column = col, tag = ''tags.'' @ str_replace col ''has_'' ''''\<rparr>)
         (filter (\<lambda>col. startswith col ''has_'') cols)"
  by (induction cols rule: rev_induct) (simp_all add: has_features_step)

section \<open>Statements: what each step returns and what it leaves alone\<close>

lemma and_then_Inr:
  "and_then m f w = (Inr b, w'') \<longleftrightarrow> (\<exists>a w'. m w = (Inr a, w') \<and> f a w' = (Inr b, w''))"
  by (auto simp: and_then_def split: prod.splits sum.splits)

lemma and_then_cases:
  assumes "and_then m f w = (r, w'')"
  obtains e where "m w = (Inl e, w'')" "r = Inl e"
  | a w' where "m w = (Inr a, w')" "f a w' = (r, w'')"
  using assms by (auto simp: and_then_def split: prod.splits sum.splits)

lemma print_eq: "print m w = (r, w') \<longleftrightarrow> r = Inr () \<and> w' = w\<lparr>stdout := stdout w @ [m]\<rparr>"
  by (auto simp: print_def)

lemma result_eq: "result x w = (r, w') \<longleftrightarrow> x = r \<and> w' = w"
  by (auto simp: result_def)

lemma reading_eq: "reading f w = (r, w') \<longleftrightarrow> f (files w) = r \<and> w' = w"
  unfolding reading_def by blast

lemma on_files_eq:
  "on_files f w = (r, w') \<longleftrightarrow> (\<exists>fs'. f (files w) = (r, fs') \<and> w' = w\<lparr>files := fs'\<rparr>)"
  by (auto simp: on_files_def split: prod.splits)

lemma call_convert_eq:
  "call_convert_sklearn ext c w = (r, w') \<longleftrightarrow>
     convert_sklearn ext c = r \<and> w' = w\<lparr>conversions := conversions w @ [c]\<rparr>"
  by (auto simp: call_convert_sklearn_def)

lemma keeps_files_and_then:
  assumes m: "keeps_files m" and f: "\<And>a. keeps_files (f a)"
  shows "keeps_files (and_then m f)"
  unfolding keeps_files_def
proof (intro allI impI)
  fix w r w'
  assume "and_then m f w = (r, w')"
  then show "files w' = files w"
  proof (cases rule: and_then_cases)
    case (1 e)
    then show ?thesis using m unfolding keeps_files_def by blast
  next
    case (2 a w1)
    have "files w1 = files w" using 2(1) m unfolding keeps_files_def by blast
    moreover have "files w' = files w1" using 2(2) f [of a] unfolding keeps_files_def by blast
    ultimately show ?thesis by simp
  qed
qed

lemma keeps_conversions_and_then:
  assumes m: "keeps_conversions m" and f: "\<And>a. keeps_conversions (f a)"
  shows "keeps_conversions (and_then m f)"
  unfolding keeps_conversions_def
proof (intro allI impI)
  fix w r w'
  assume "and_then m f w = (r, w')"
  then show "conversions w' = conversions w"
  proof (cases rule: and_then_cases)
    case (1 e)
    then show ?thesis using m unfolding keeps_conversions_def by blast
  next
    case (2 a w1)
    have "conversions w1 = conversions w" using 2(1) m unfolding keeps_conversions_def by blast
    moreover have "conversions w' = conversions w1"
      using 2(2) f [of a] unfolding keeps_conversions_def by blast
    ultimately show ?thesis by simp
  qed
qed

lemma keeps_files_basic:
  "keeps_files (print m)" "keeps_files (result x)" "keeps_files (reading f)"
  by (auto simp: keeps_files_def print_def result_def reading_def)

lemma keeps_conversions_basic:
  "keeps_conversions (print m)" "keeps_conversions (result x)" "keeps_conversions (reading f)"
  "keeps_conversions (on_files g)"
  by (auto simp: keeps_conversions_def print_def result_def reading_def on_files_def split: prod.splits)

lemma keeps_files_test_inference: "keeps_files (test_inference ext p n)"
  unfolding test_inference_def by (intro keeps_files_and_then keeps_files_basic)

lemma keeps_conversions_test_inference: "keeps_conversions (test_inference ext p n)"
  unfolding test_inference_def by (intro keeps_conversions_and_then keeps_conversions_basic)

lemma smoke_test_eq:
  "smoke_test ext p n w = (r, w') \<Longrightarrow>
     r = Inr () \<and> files w' = files w \<and> conversions w' = conversions w"
  using keeps_files_test_inference [of ext p n] keeps_conversions_test_inference [of ext p n]
  by (auto simp: smoke_test_def print_def keeps_files_def keeps_conversions_def
      split: prod.splits sum.splits if_splits)

lemma smoke_test_caught:
  "test_inference ext p n w = (Inl e, w1) \<Longrightarrow>
     smoke_test ext p n w =
       (Inr (), w1\<lparr>stdout := stdout w1 @ [if e = ImportError then OrtNotInstalled else TestInferenceError e]\<rparr>)"
  by (simp add: smoke_test_def print_def)

lemma keeps_files_extract: "keeps_files (extract_importances m fc)"
proof (cases "feature_importances_attr m")
  case None
  show ?thesis unfolding extract_importances_def None option.case
    by (intro keeps_files_and_then keeps_files_basic)
next
  case (Some imps)
  show ?thesis unfolding extract_importances_def Some option.case
    by (intro keeps_files_and_then keeps_files_basic)
qed

lemma keeps_conversions_extract: "keeps_conversions (extract_importances m fc)"
proof (cases "feature_importances_attr m")
  case None
  show ?thesis unfolding extract_importances_def None option.case
    by (intro keeps_conversions_and_then keeps_conversions_basic)
next
  case (Some imps)
  show ?thesis unfolding extract_importances_def Some option.case
    by (intro keeps_conversions_and_then keeps_conversions_basic)
qed

lemma extract_importances_Inr:
  "extract_importances m fc w = (Inr fi, w') \<Longrightarrow>
     (case feature_importances_attr m of
        Some imps \<Rightarrow> native_importances (enumerate 0 imps) fc [] = Inr fi
      | None \<Rightarrow> fi = heuristic_importances fc)"
  by (auto simp: extract_importances_def and_then_Inr print_eq result_eq split: option.splits)

lemma write_file_Inr: "write_file p c fs = (Inr u, fs') \<Longrightarrow> fs' = fs(p \<mapsto> File c)"
  by (auto simp: write_file_def split: if_splits option.splits)

lemma output_paths_differ: "ONNX_OUTPUT_PATH sf \<noteq> CONFIG_OUTPUT_PATH sf"
  by (simp add: ONNX_OUTPUT_PATH_def CONFIG_OUTPUT_PATH_def)

lemma extract_importances_InrD:
  assumes "extract_importances m fc w = (Inr fi, w')"
  shows "files w' = files w" "conversions w' = conversions w"
    "(case feature_importances_attr m of
        Some imps \<Rightarrow> native_importances (enumerate 0 imps) fc [] = Inr fi
      | None \<Rightarrow> fi = heuristic_importances fc)"
  using assms keeps_files_extract [of m fc] keeps_conversions_extract [of m fc]
    extract_importances_Inr [OF assms]
  unfolding keeps_files_def keeps_conversions_def by blast+

lemma write_outputs_Inr:
  assumes "write_outputs ext sf mp w = (Inr l, w1)"
  shows "\<exists>md g fi fs0.
           joblib_load ext (files w) mp = Inr md \<and>
           read_model_data ext md = Inr l \<and>
           convert_sklearn ext (conversion_call (model l) (feature_cols l)) = Inr g \<and>
           (case feature_importances_attr (model l) of
              Some imps \<Rightarrow> native_importances (enumerate 0 imps) (feature_cols l) [] = Inr fi
            | None \<Rightarrow> fi = heuristic_importances (feature_cols l)) \<and>
           files w1 =
             fs0(ONNX_OUTPUT_PATH sf \<mapsto> File (Bytes (SerializeToString g)),
                 CONFIG_OUTPUT_PATH sf \<mapsto>
                   File (JsonDoc (make_config l (make_labels (n_classes l) (class_mapping l)) fi))) \<and>
           conversions w1 = conversions w @ [conversion_call (model l) (feature_cols l)]"
  using assms unfolding write_outputs_def
  apply (simp only: and_then_Inr print_eq result_eq reading_eq on_files_eq call_convert_eq)
  apply (elim exE conjE)
  apply (frule extract_importances_InrD(1))
  apply (frule extract_importances_InrD(2))
  apply (drule extract_importances_InrD(3))
  apply (drule write_file_Inr)+
  apply (simp)
  apply blast
  done

section \<open>The two ways of computing importances\<close>

text \<open>
  The native loop never raises when every index is in range; the entry it leaves for a
  name is the importance of the last column of that name whose importance is positive.
\<close>

lemma native_importances_fold:
  assumes "\<forall>p\<in>set xs. fst p < length fc"
  shows "\<exists>fi'. native_importances xs fc fi = Inr fi' \<and>
           (\<forall>c. dict_get fi' c =
              foldl (\<lambda>acc p. if float_gt (snd p) (Finite 0) \<and> fc ! fst p = c then Some (snd p) else acc)
                (dict_get fi c) xs)"
  using assms
proof (induction xs arbitrary: fi)
  case Nil
  then show ?case by simp
next
  case (Cons p xs)
  obtain i x where p: "p = (i, x)" by (cases p)
  from Cons.prems have rest: "\<forall>q\<in>set xs. fst q < length fc" and i: "i < length fc"
    using p by auto
  show ?case
  proof (cases "float_gt x (Finite 0)")
    case True
    from Cons.IH [OF rest, of "dict_set fi (fc ! i) x"] True i p
    show ?thesis by (auto simp: dict_get_set)
  next
    case False
    from Cons.IH [OF rest, of fi] False p show ?thesis by auto
  qed
qed

lemma last_positive_fold:
  "foldl (\<lambda>acc p. if float_gt (snd p) (Finite 0) \<and> fc ! fst p = c then Some (snd p) else acc)
      None (enumerate 0 imps) = Some v \<longleftrightarrow>
   (\<exists>i<length imps. fc ! i = c \<and> float_gt (imps ! i) (Finite 0) \<and> v = imps ! i \<and>
      (\<forall>j. i < j \<and> j < length imps \<and> fc ! j = c \<longrightarrow> \<not> float_gt (imps ! j) (Finite 0)))"
proof (induction imps arbitrary: v rule: rev_induct)
  case Nil
  then show ?case by simp
next
  case (snoc x xs)
  have en: "enumerate 0 (xs @ [x]) = enumerate 0 xs @ [(length xs, x)]"
    by (simp add: enumerate_append_eq)
  show ?case
  proof (cases "float_gt x (Finite 0) \<and> fc ! length xs = c")
    case True
    have "(\<exists>i<length (xs @ [x]). fc ! i = c \<and> float_gt ((xs @ [x]) ! i) (Finite 0) \<and> v = (xs @ [x]) ! i \<and>
      (\<forall>j. i < j \<and> j < length (xs @ [x]) \<and> fc ! j = c \<longrightarrow> \<not> float_gt ((xs @ [x]) ! j) (Finite 0)))
      \<longleftrightarrow> v = x"
    proof
      assume "\<exists>i<length (xs @ [x]). fc ! i = c \<and> float_gt ((xs @ [x]) ! i) (Finite 0) \<and> v = (xs @ [x]) ! i \<and>
      (\<forall>j. i < j \<and> j < length (xs @ [x]) \<and> fc ! j = c \<longrightarrow> \<not> float_gt ((xs @ [x]) ! j) (Finite 0))"
      then obtain i where i: "i < length (xs @ [x])" "v = (xs @ [x]) ! i"
        and last: "\<forall>j. i < j \<and> j < length (xs @ [x]) \<and> fc ! j = c \<longrightarrow> \<not> float_gt ((xs @ [x]) ! j) (Finite 0)"
        by blast
      have "i = length xs"
      proof (rule ccontr)
        assume "i \<noteq> length xs"
        with i have "i < length xs" by simp
        with last True show False by (auto simp: nth_append)
      qed
      with i show "v = x" by simp
    next
      assume "v = x"
      with True show "\<exists>i<length (xs @ [x]). fc ! i = c \<and> float_gt ((xs @ [x]) ! i) (Finite 0) \<and> v = (xs @ [x]) ! i \<and>
      (\<forall>j. i < j \<and> j < length (xs @ [x]) \<and> fc ! j = c \<longrightarrow> \<not> float_gt ((xs @ [x]) ! j) (Finite 0))"
        by (intro exI [of _ "length xs"]) auto
    qed
    with True show ?thesis unfolding en by auto
  next
    case False
    have "(\<exists>i<length (xs @ [x]). fc ! i = c \<and> float_gt ((xs @ [x]) ! i) (Finite 0) \<and> v = (xs @ [x]) ! i \<and>
      (\<forall>j. i < j \<and> j < length (xs @ [x]) \<and> fc ! j = c \<longrightarrow> \<not> float_gt ((xs @ [x]) ! j) (Finite 0)))
      \<longleftrightarrow>
      (\<exists>i<length xs. fc ! i = c \<and> float_gt (xs ! i) (Finite 0) \<and> v = xs ! i \<and>
      (\<forall>j. i < j \<and> j < length xs \<and> fc ! j = c \<longrightarrow> \<not> float_gt (xs ! j) (Finite 0)))"
      (is "?L \<longleftrightarrow> ?R")
    proof
      assume ?L
      then obtain i where i: "i < length (xs @ [x])" "fc ! i = c" "float_gt ((xs @ [x]) ! i) (Finite 0)"
        "v = (xs @ [x]) ! i"
        and last: "\<forall>j. i < j \<and> j < length (xs @ [x]) \<and> fc ! j = c \<longrightarrow> \<not> float_gt ((xs @ [x]) ! j) (Finite 0)"
        by blast
      have il: "i < length xs"
      proof (rule ccontr)
        assume "\<not> i < length xs"
        with i(1) have "i = length xs" by simp
        with i False show False by simp
      qed
      have "\<forall>j. i < j \<and> j < length xs \<and> fc ! j = c \<longrightarrow> \<not> float_gt (xs ! j) (Finite 0)"
      proof (intro allI impI)
        fix j assume j: "i < j \<and> j < length xs \<and> fc ! j = c"
        then have "\<not> float_gt ((xs @ [x]) ! j) (Finite 0)" using last by simp
        with j show "\<not> float_gt (xs ! j) (Finite 0)" by (simp add: nth_append)
      qed
      with il i show ?R by (auto simp: nth_append)
    next
      assume ?R
      then obtain i where i: "i < length xs" "fc ! i = c" "float_gt (xs ! i) (Finite 0)" "v = xs ! i"
        and last: "\<forall>j. i < j \<and> j < length xs \<and> fc ! j = c \<longrightarrow> \<not> float_gt (xs ! j) (Finite 0)"
        by blast
      have "\<forall>j. i < j \<and> j < length (xs @ [x]) \<and> fc ! j = c \<longrightarrow> \<not> float_gt ((xs @ [x]) ! j) (Finite 0)"
      proof (intro allI impI)
        fix j assume j: "i < j \<and> j < length (xs @ [x]) \<and> fc ! j = c"
        show "\<not> float_gt ((xs @ [x]) ! j) (Finite 0)"
        proof (cases "j < length xs")
          case True
          with j last show ?thesis by (simp add: nth_append)
        next
          case False
          with j have "j = length xs" by simp
          with j \<open>\<not> (float_gt x (Finite 0) \<and> fc ! length xs = c)\<close> show ?thesis by simp
        qed
      qed
      with i show ?L by (intro exI [of _ i]) (simp add: nth_append)
    qed
    with False snoc.IH [of v] show ?thesis unfolding en by auto
  qed
qed

lemma native_importances_aligned:
  assumes "length imps \<le> length fc"
  shows "\<exists>fi. native_importances (enumerate 0 imps) fc [] = Inr fi \<and>
          (\<forall>c v. dict_get fi c = Some v \<longleftrightarrow>
            (\<exists>i<length imps. fc ! i = c \<and> float_gt (imps ! i) (Finite 0) \<and> v = imps ! i \<and>
              (\<forall>j. i < j \<and> j < length imps \<and> fc ! j = c \<longrightarrow> \<not> float_gt (imps ! j) (Finite 0))))"
proof -
  have "\<forall>p\<in>set (enumerate 0 imps). fst p < length fc"
    using assms by (auto simp: in_set_enumerate_eq)
  from native_importances_fold [OF this, of "[]"] obtain fi where
    fi: "native_importances (enumerate 0 imps) fc [] = Inr fi"
    and look: "\<forall>c. dict_get fi c =
              foldl (\<lambda>acc p. if float_gt (snd p) (Finite 0) \<and> fc ! fst p = c then Some (snd p) else acc)
                (dict_get [] c) (enumerate 0 imps)"
    by blast
  show ?thesis
    using fi look by (simp add: dict_get_empty last_positive_fold)
qed

lemma heuristic_step_lookup:
  "dict_get (heuristic_step fi col) c =
     (if c = col \<and> float_gt (column_importance col) (Finite 0.01) then Some (column_importance col)
      else dict_get fi c)"
  by (simp add: heuristic_step_def Let_def dict_get_set)

lemma heuristic_fold_lookup:
  "dict_get (foldl heuristic_step fi cols) c =
     (if c \<in> set cols \<and> float_gt (column_importance c) (Finite 0.01) then Some (column_importance c)
      else dict_get fi c)"
  by (induction cols rule: rev_induct) (auto simp: heuristic_step_lookup)

lemma py_any_str_in:
  "py_any (\<lambda>v. str_in v s) vocab \<longleftrightarrow> (\<exists>v\<in>set vocab. \<exists>ps ss. s = ps @ v @ ss)"
  by (simp add: py_any_def list_ex_iff str_in_iff)

lemma heuristic_importances_lookup:
  "dict_get (heuristic_importances fc) col =
     (if col \<notin> set fc then None
      else if \<exists>v\<in>set accessibility_positive. \<exists>ps ss. lower col = ps @ v @ ss then Some (Finite 0.15)
      else if \<exists>v\<in>set accessibility_negative. \<exists>ps ss. lower col = ps @ v @ ss then Some (Finite 0.12)
      else if \<exists>v\<in>set place_type. \<exists>ps ss. lower col = ps @ v @ ss then Some (Finite 0.08)
      else if \<exists>rest. lower col = ''has_'' @ rest then Some (Finite 0.05)
      else None)"
  unfolding heuristic_importances_def heuristic_fold_lookup column_importance_def Let_def
    py_any_str_in startswith_iff
  by (simp add: dict_get_empty)

lemma upper_chars_keys: "map fst (zip upper_chars lower_chars) = upper_chars"
  by (simp add: upper_chars_def lower_chars_def)

lemma upper_chars_distinct: "distinct (map fst (zip upper_chars lower_chars))"
  unfolding upper_chars_keys by (simp add: upper_chars_def)

lemma char_lower_same_letter:
  assumes "d \<notin> set upper_chars"
  shows "char_lower c = d \<longleftrightarrow> same_letter c d"
proof -
  have nd: "(d, c) \<notin> set (zip upper_chars lower_chars)"
    using assms by (meson set_zip_leftD)
  show ?thesis
  proof (cases "map_of (zip upper_chars lower_chars) c")
    case None
    then have "c \<notin> fst ` set (zip upper_chars lower_chars)"
      by (simp add: map_of_eq_None_iff)
    then have nz: "(c, d) \<notin> set (zip upper_chars lower_chars)"
      by force
    from None nz nd show ?thesis
      by (auto simp: char_lower_def same_letter_def)
  next
    case (Some e)
    then have ce: "(c, e) \<in> set (zip upper_chars lower_chars)" by (rule map_of_SomeD)
    then have "c \<in> set upper_chars" by (rule set_zip_leftD)
    with assms have cd: "c \<noteq> d" by auto
    have uniq: "(c, d) \<in> set (zip upper_chars lower_chars) \<longleftrightarrow> d = e"
    proof
      assume "(c, d) \<in> set (zip upper_chars lower_chars)"
      from map_of_is_SomeI [OF upper_chars_distinct this] Some show "d = e" by simp
    next
      assume "d = e"
      with ce show "(c, d) \<in> set (zip upper_chars lower_chars)" by simp
    qed
    from Some cd nd uniq show ?thesis
      by (auto simp: char_lower_def same_letter_def)
  qed
qed

lemma lower_same_ignoring_case:
  assumes "set v \<inter> set upper_chars = {}"
  shows "lower u = v \<longleftrightarrow> same_ignoring_case u v"
  using assms
proof (induction u arbitrary: v)
  case Nil
  then show ?case by (auto simp: lower_def same_ignoring_case_def)
next
  case (Cons c u)
  show ?case
  proof (cases v)
    case Nil
    then show ?thesis by (auto simp: lower_def same_ignoring_case_def)
  next
    case (Cons d v')
    with Cons.prems have d: "d \<notin> set upper_chars" and v': "set v' \<inter> set upper_chars = {}"
      by auto
    from Cons.IH [OF v'] char_lower_same_letter [OF d, of c] Cons
    show ?thesis by (auto simp: lower_def same_ignoring_case_def)
  qed
qed

lemma contains_ignoring_case_lower:
  assumes "set v \<inter> set upper_chars = {}"
  shows "contains_ignoring_case s v \<longleftrightarrow> (\<exists>ps ss. lower s = ps @ v @ ss)"
proof
  assume "contains_ignoring_case s v"
  then obtain ps u ss where s: "s = ps @ u @ ss" and u: "same_ignoring_case u v"
    unfolding contains_ignoring_case_def by blast
  from u have "lower u = v" by (simp add: lower_same_ignoring_case [OF assms])
  with s have "lower s = lower ps @ v @ lower ss" by (simp add: lower_def)
  then show "\<exists>ps ss. lower s = ps @ v @ ss" by blast
next
  assume "\<exists>ps ss. lower s = ps @ v @ ss"
  then obtain ps' ss' where "map char_lower s = ps' @ (v @ ss')" by (auto simp: lower_def)
  then obtain ps rest where s1: "s = ps @ rest" and rest: "map char_lower rest = v @ ss'"
    by (metis map_eq_append_conv)
  from rest obtain u ss where s2: "rest = u @ ss" and u: "map char_lower u = v"
    by (metis map_eq_append_conv)
  from u have "same_ignoring_case u v"
    using lower_same_ignoring_case [OF assms, of u] by (simp add: lower_def)
  with s1 s2 show "contains_ignoring_case s v"
    unfolding contains_ignoring_case_def by blast
qed

lemma begins_ignoring_case_lower:
  assumes "set v \<inter> set upper_chars = {}"
  shows "begins_ignoring_case s v \<longleftrightarrow> (\<exists>rest. lower s = v @ rest)"
proof
  assume "begins_ignoring_case s v"
  then obtain u ss where s: "s = u @ ss" and u: "same_ignoring_case u v"
    unfolding begins_ignoring_case_def by blast
  from u have "lower u = v" by (simp add: lower_same_ignoring_case [OF assms])
  with s have "lower s = v @ lower ss" by (simp add: lower_def)
  then show "\<exists>rest. lower s = v @ rest" by blast
next
  assume "\<exists>rest. lower s = v @ rest"
  then obtain rest where "map char_lower s = v @ rest" by (auto simp: lower_def)
  then obtain u ss where s: "s = u @ ss" and u: "map char_lower u = v"
    by (metis map_eq_append_conv)
  from u have "same_ignoring_case u v"
    using lower_same_ignoring_case [OF assms, of u] by (simp add: lower_def)
  with s show "begins_ignoring_case s v"
    unfolding begins_ignoring_case_def by blast
qed

lemma vocabulary_in_lower_case:
  "\<forall>v\<in>set accessibility_positive. set v \<inter> set upper_chars = {}"
  "\<forall>v\<in>set accessibility_negative. set v \<inter> set upper_chars = {}"
  "\<forall>v\<in>set place_type. set v \<inter> set upper_chars = {}"
  "set ''has_'' \<inter> set upper_chars = {}"
  by (simp_all add: accessibility_positive_def accessibility_negative_def place_type_def
      upper_chars_def)

lemma heuristic_importances_lookup_ignoring_case:
  "dict_get (heuristic_importances fc) col =
     (if col \<notin> set fc then None
      else if \<exists>v\<in>set accessibility_positive. contains_ignoring_case col v then Some (Finite 0.15)
      else if \<exists>v\<in>set accessibility_negative. contains_ignoring_case col v then Some (Finite 0.12)
      else if \<exists>v\<in>set place_type. contains_ignoring_case col v then Some (Finite 0.08)
      else if begins_ignoring_case col ''has_'' then Some (Finite 0.05)
      else None)"
proof -
  have pos: "(\<exists>v\<in>set accessibility_positive. contains_ignoring_case col v) \<longleftrightarrow>
      (\<exists>v\<in>set accessibility_positive. \<exists>ps ss. lower col = ps @ v @ ss)"
    using vocabulary_in_lower_case(1) by (simp add: contains_ignoring_case_lower cong: bex_cong)
  have neg: "(\<exists>v\<in>set accessibility_negative. contains_ignoring_case col v) \<longleftrightarrow>
      (\<exists>v\<in>set accessibility_negative. \<exists>ps ss. lower col = ps @ v @ ss)"
    using vocabulary_in_lower_case(2) by (simp add: contains_ignoring_case_lower cong: bex_cong)
  have pt: "(\<exists>v\<in>set place_type. contains_ignoring_case col v) \<longleftrightarrow>
      (\<exists>v\<in>set place_type. \<exists>ps ss. lower col = ps @ v @ ss)"
    using vocabulary_in_lower_case(3) by (simp add: contains_ignoring_case_lower cong: bex_cong)
  note has = begins_ignoring_case_lower [OF vocabulary_in_lower_case(4), of col]
  show ?thesis
    unfolding pos neg pt has by (rule heuristic_importances_lookup)
qed

section \<open>The run, taken apart\<close>

lemma and_then_print: "and_then (print m) f w = f () (w\<lparr>stdout := stdout w @ [m]\<rparr>)"
  by (simp add: and_then_def print_def)

lemma and_then_result:
  "and_then (result x) f w = (case x of Inl e \<Rightarrow> (Inl e, w) | Inr a \<Rightarrow> f a w)"
  by (simp add: and_then_def result_def split: sum.splits)

lemma and_then_reading:
  "and_then (reading g) f w = (case g (files w) of Inl e \<Rightarrow> (Inl e, w) | Inr a \<Rightarrow> f a w)"
  by (simp add: and_then_def reading_def split: sum.splits)

lemma and_then_call_convert:
  "and_then (call_convert_sklearn ext c) f w =
     (case convert_sklearn ext c of
        Inl e \<Rightarrow> (Inl e, w\<lparr>conversions := conversions w @ [c]\<rparr>)
      | Inr g \<Rightarrow> f g (w\<lparr>conversions := conversions w @ [c]\<rparr>))"
  by (simp add: and_then_def call_convert_sklearn_def split: sum.splits)

lemma keeps_conversionsD:
  "m w = (r, w') \<Longrightarrow> keeps_conversions m \<Longrightarrow> conversions w' = conversions w"
  unfolding keeps_conversions_def by blast

lemma keeps_conversions_smoke_test: "keeps_conversions (smoke_test ext p n)"
  unfolding keeps_conversions_def using smoke_test_eq by blast

lemma keeps_files_smoke_test: "keeps_files (smoke_test ext p n)"
  unfolding keeps_files_def using smoke_test_eq by blast

lemma read_model_data_Inr:
  assumes "read_model_data ext md = Inr l"
  shows "md_model md = Some (model l)" "md_model_name md = Some (model_name l)"
    "md_feature_columns md = Some (feature_cols l)"
    "md_useful_features md = Some (useful_feats l)"
    "md_metrics md = Some (metrics l)"
    "n_classes l = (case md_n_classes md of Some n \<Rightarrow> n | None \<Rightarrow> 2)"
    "int_keys ext (case md_class_mapping md of Some cm \<Rightarrow> cm
        | None \<Rightarrow> [(IntKey 0, ''not_accessible''), (IntKey 1, ''accessible'')]) [] =
       Inr (class_mapping l)"
  using assms
  by (auto simp: read_model_data_def getitem_def Let_def split: option.splits sum.splits)

lemma main_Inr:
  assumes "main ext sf mp w = (Inr u, w')"
  shows "\<exists>l w1. write_outputs ext sf mp w = (Inr l, w1) \<and> files w' = files w1 \<and>
           conversions w' = conversions w1"
  using assms unfolding main_def
  apply (simp only: and_then_Inr print_eq)
  apply (elim exE conjE)
  apply (drule smoke_test_eq)
  apply auto
  done

lemma script_Inr:
  assumes "script ext sf w = (Inr u, w')"
  shows "\<exists>md l g fi fs0.
           joblib_load ext (files w) (MODEL_PATH sf (files w)) = Inr md \<and>
           read_model_data ext md = Inr l \<and>
           convert_sklearn ext (conversion_call (model l) (feature_cols l)) = Inr g \<and>
           (case feature_importances_attr (model l) of
              Some imps \<Rightarrow> native_importances (enumerate 0 imps) (feature_cols l) [] = Inr fi
            | None \<Rightarrow> fi = heuristic_importances (feature_cols l)) \<and>
           files w' =
             fs0(ONNX_OUTPUT_PATH sf \<mapsto> File (Bytes (SerializeToString g)),
                 CONFIG_OUTPUT_PATH sf \<mapsto>
                   File (JsonDoc (make_config l (make_labels (n_classes l) (class_mapping l)) fi))) \<and>
           conversions w' = conversions w @ [conversion_call (model l) (feature_cols l)]"
proof -
  from assms obtain l w1 where
    wo: "write_outputs ext sf (MODEL_PATH sf (files w)) w = (Inr l, w1)"
    and same: "files w' = files w1" "conversions w' = conversions w1"
    unfolding script_def using main_Inr by blast
  from write_outputs_Inr [OF wo] show ?thesis
    unfolding same
    apply (elim exE)
    subgoal for md g fi fs0
      apply (rule exI [of _ md], rule exI [of _ l], rule exI [of _ g])
      apply (rule exI [of _ fi], rule exI [of _ fs0])
      apply assumption
      done
    done
qed

lemma script_written_config:
  assumes "script ext sf w = (Inr u, w')"
    and "joblib_load ext (files w) (MODEL_PATH sf (files w)) = Inr md"
  shows "\<exists>l fi g.
           read_model_data ext md = Inr l \<and>
           convert_sklearn ext (conversion_call (model l) (feature_cols l)) = Inr g \<and>
           (case feature_importances_attr (model l) of
              Some imps \<Rightarrow> native_importances (enumerate 0 imps) (feature_cols l) [] = Inr fi
            | None \<Rightarrow> fi = heuristic_importances (feature_cols l)) \<and>
           written_config sf w' =
             Some (make_config l (make_labels (n_classes l) (class_mapping l)) fi) \<and>
           files w' (ONNX_OUTPUT_PATH sf) = Some (File (Bytes (SerializeToString g)))"
proof -
  from script_Inr [OF assms(1)] obtain md' l g fi fs0 where
    md': "joblib_load ext (files w) (MODEL_PATH sf (files w)) = Inr md'"
    and l: "read_model_data ext md' = Inr l"
    and g: "convert_sklearn ext (conversion_call (model l) (feature_cols l)) = Inr g"
    and fi: "(case feature_importances_attr (model l) of
              Some imps \<Rightarrow> native_importances (enumerate 0 imps) (feature_cols l) [] = Inr fi
            | None \<Rightarrow> fi = heuristic_importances (feature_cols l))"
    and fs: "files w' =
             fs0(ONNX_OUTPUT_PATH sf \<mapsto> File (Bytes (SerializeToString g)),
                 CONFIG_OUTPUT_PATH sf \<mapsto>
                   File (JsonDoc (make_config l (make_labels (n_classes l) (class_mapping l)) fi)))"
    by blast
  from md' assms(2) have "md' = md" by simp
  moreover have "written_config sf w' =
      Some (make_config l (make_labels (n_classes l) (class_mapping l)) fi)"
    by (simp add: written_config_def fs)
  moreover have "files w' (ONNX_OUTPUT_PATH sf) = Some (File (Bytes (SerializeToString g)))"
    using output_paths_differ [of sf] by (simp add: fs)
  ultimately show ?thesis using l g fi by blast
qed

lemma write_outputs_conversions:
  assumes "write_outputs ext sf mp w = (r, w1)"
    and "joblib_load ext (files w) mp = Inr md"
    and "read_model_data ext md = Inr l"
  shows "conversions w1 = conversions w @ [conversion_call (model l) (feature_cols l)]"
proof (cases "convert_sklearn ext (conversion_call (model l) (feature_cols l))")
  case (Inl e)
  with assms show ?thesis
    unfolding write_outputs_def
    by (simp add: and_then_print and_then_reading and_then_result and_then_call_convert) auto
next
  case (Inr g)
  with assms show ?thesis
    unfolding write_outputs_def
    apply (simp add: and_then_print and_then_reading and_then_result and_then_call_convert)
    apply (drule keeps_conversionsD)
     apply (intro keeps_conversions_and_then keeps_conversions_basic keeps_conversions_extract)
    apply simp
    done
qed

lemma script_conversions:
  assumes "script ext sf w = (r, w')"
    and "joblib_load ext (files w) (MODEL_PATH sf (files w)) = Inr md"
    and "read_model_data ext md = Inr l"
  shows "conversions w' = conversions w @ [conversion_call (model l) (feature_cols l)]"
proof -
  from assms(1) have "main ext sf (MODEL_PATH sf (files w)) w = (r, w')"
    by (simp add: script_def)
  then show ?thesis unfolding main_def
  proof (cases rule: and_then_cases)
    case (1 e)
    from write_outputs_conversions [OF 1(1) assms(2,3)] show ?thesis .
  next
    case (2 l' w1)
    have "conversions w' = conversions w1"
      using 2(2)
      by (rule keeps_conversionsD)
         (intro keeps_conversions_and_then keeps_conversions_basic keeps_conversions_smoke_test)
    with write_outputs_conversions [OF 2(1) assms(2,3)] show ?thesis by simp
  qed
qed

section \<open>The sample run, evaluated\<close>

lemmas example_defs =
  example_file_def heuristic_artifact_def native_artifact_def example_externals_def
  example_world_def empty_world_def

lemmas path_defs =
  SCRIPT_DIR_def PROJECT_ROOT_def MODEL_PATH_def ONNX_OUTPUT_PATH_def CONFIG_OUTPUT_PATH_def
  candidate_paths_def dirname_def

lemmas fs_defs =
  exists_def isdir_def node_at_def parent_error_def mkdir_def write_file_def read_file_def
  makedirs.simps

lemmas run_defs =
  script_def main_def write_outputs_def and_then_def result_def print_def on_files_def
  reading_def getitem_def joblib_load_def read_model_data_def py_int_def
  call_convert_sklearn_def conversion_call_def extract_importances_def smoke_test_def
  test_inference_def open_session_def Let_def

lemma example_model_path:
  "MODEL_PATH example_file (files example_world) =
     [''repo'', ''accessibility_model_worldwide.joblib'']"
  by (simp add: example_defs path_defs fs_defs)

lemma example_load:
  "joblib_load (example_externals a) (files example_world)
     (MODEL_PATH example_file (files example_world)) = Inr a"
  by (simp add: example_model_path)
     (simp add: example_defs joblib_load_def read_file_def node_at_def)

lemma heuristic_run:
  "script (example_externals heuristic_artifact) example_file example_world =
     (Inr (), snd (script (example_externals heuristic_artifact) example_file example_world))"
proof -
  have "fst (script (example_externals heuristic_artifact) example_file example_world) = Inr ()"
    by (simp add: example_defs path_defs fs_defs run_defs)
  then show ?thesis by (metis prod.collapse)
qed

lemma native_run:
  "script (example_externals native_artifact) example_file example_world =
     (Inr (), snd (script (example_externals native_artifact) example_file example_world))"
proof -
  have "fst (script (example_externals native_artifact) example_file example_world) = Inr ()"
    by (simp add: example_defs path_defs fs_defs run_defs)
  then show ?thesis by (metis prod.collapse)
qed

section \<open>The claims\<close>

text \<open>
  C1.  Whenever an artifact is loaded and the run completes, the configuration document
  written at \<open>CONFIG_OUTPUT_PATH\<close> holds the artifact's \<open>feature_columns\<close> list
  itself: the same names in the same order, duplicates included.
\<close>

theorem feature_columns_preserved:
  assumes "joblib_load ext (files w) (MODEL_PATH sf (files w)) = Inr model_data"
    and "script ext sf w = (Inr u, w')"
  shows "\<exists>cfg. written_config sf w' = Some cfg \<and>
           md_feature_columns model_data = Some (cfg_feature_columns cfg)"
proof -
  from script_written_config [OF assms(2,1)] obtain l fi where
    l: "read_model_data ext model_data = Inr l"
    and cfg: "written_config sf w' =
      Some (make_config l (make_labels (n_classes l) (class_mapping l)) fi)"
    by blast
  from read_model_data_Inr(3) [OF l] cfg show ?thesis
    by (simp add: make_config_def)
qed

theorem feature_columns_preserved_witness:
  "joblib_load (example_externals heuristic_artifact) (files example_world)
     (MODEL_PATH example_file (files example_world)) = Inr heuristic_artifact \<and>
   fst (script (example_externals heuristic_artifact) example_file example_world) = Inr () \<and>
   map_option cfg_feature_columns
     (written_config example_file
        (snd (script (example_externals heuristic_artifact) example_file example_world))) =
     Some [''has_ramp'', ''stairs_present'', ''random_flag_7'', ''amenity_cafe'']"
proof -
  from feature_columns_preserved [OF example_load heuristic_run]
  obtain cfg where
    "written_config example_file
        (snd (script (example_externals heuristic_artifact) example_file example_world)) = Some cfg"
    "md_feature_columns heuristic_artifact = Some (cfg_feature_columns cfg)"
    by blast
  then show ?thesis
    using example_load [of heuristic_artifact] heuristic_run
    by (simp add: heuristic_artifact_def) (metis fst_conv)
qed

lemma heuristic_loaded:
  "read_model_data (example_externals heuristic_artifact) heuristic_artifact =
     Inr \<lparr>model = \<lparr>internals = (), feature_importances_attr = None\<rparr>,
          model_name = ''HistGradientBoostingClassifier'',
          feature_cols = [''has_ramp'', ''stairs_present'', ''random_flag_7'', ''amenity_cafe''],
          useful_feats = [''ramp'', ''amenity''],
          metrics = (),
          n_classes = 3,
          class_mapping = [(0, ''not_accessible''), (1, ''limited''), (2, ''accessible'')]\<rparr>"
  by (simp add: read_model_data_def getitem_def heuristic_artifact_def py_int_def)

lemma native_loaded:
  "read_model_data (example_externals native_artifact) native_artifact =
     Inr \<lparr>model = \<lparr>internals = (), feature_importances_attr = Some [Finite 0.2, Finite 0]\<rparr>,
          model_name = ''RandomForestClassifier'',
          feature_cols = [''has_ramp'', ''amenity_cafe''],
          useful_feats = [''ramp'', ''amenity''],
          metrics = (),
          n_classes = 2,
          class_mapping = [(0, ''no''), (1, ''yes'')]\<rparr>"
  by (simp add: read_model_data_def getitem_def native_artifact_def py_int_def)

text \<open>
  C2, as stated, fails.  The labels follow the class mapping only when \<open>n_classes\<close> is 3;
  for a two-class artifact whose mapping is \<open>{0: "no", 1: "yes"}\<close> the configuration
  document still carries the fixed labels.
\<close>

theorem two_class_labels_ignore_mapping:
  "md_n_classes native_artifact = Some 2 \<and>
   md_class_mapping native_artifact = Some [(IntKey 0, ''no''), (IntKey 1, ''yes'')] \<and>
   joblib_load (example_externals native_artifact) (files example_world)
     (MODEL_PATH example_file (files example_world)) = Inr native_artifact \<and>
   map_option cfg_labels
     (written_config example_file
        (snd (script (example_externals native_artifact) example_file example_world))) =
     Some [''not_accessible'', ''accessible'']"
proof -
  from script_written_config [OF native_run example_load] obtain l fi where
    l: "read_model_data (example_externals native_artifact) native_artifact = Inr l"
    and cfg: "written_config example_file
        (snd (script (example_externals native_artifact) example_file example_world)) =
      Some (make_config l (make_labels (n_classes l) (class_mapping l)) fi)"
    by blast
  from read_model_data_Inr(6) [OF l] have "n_classes l = 2"
    by (simp add: native_artifact_def)
  then have "cfg_labels (make_config l (make_labels (n_classes l) (class_mapping l)) fi) =
      [''not_accessible'', ''accessible'']"
    by (simp add: make_config_def make_labels_def)
  then show ?thesis
    using cfg example_load [of native_artifact] by (simp add: native_artifact_def)
qed

text \<open>
  C2, amended.  The configuration document records the class count of the artifact
  (2 when absent) and the class mapping with its keys turned into integers (the two-class
  mapping when absent).  When the class count is 3, the labels are the mapping's entries
  for 0, 1 and 2 in that order, \<open>class_i\<close> standing in for a missing index; for every
  other class count they are \<open>["not_accessible", "accessible"]\<close>, whatever the mapping.
  In particular the mapping \<open>{0: l0, 1: l1, 2: l2}\<close> with class count 3 gives
  \<open>[l0, l1, l2]\<close>.
\<close>

theorem labels_by_class_count:
  assumes "joblib_load ext (files w) (MODEL_PATH sf (files w)) = Inr model_data"
    and "script ext sf w = (Inr u, w')"
  shows "\<exists>cfg. written_config sf w' = Some cfg \<and>
           cfg_n_classes cfg = (case md_n_classes model_data of Some n \<Rightarrow> n | None \<Rightarrow> 2) \<and>
           int_keys ext
             (case md_class_mapping model_data of
                Some cm \<Rightarrow> cm
              | None \<Rightarrow> [(IntKey 0, ''not_accessible''), (IntKey 1, ''accessible'')]) [] =
             Inr (cfg_class_mapping cfg) \<and>
           (cfg_n_classes cfg = 3 \<longrightarrow>
              cfg_labels cfg =
                map (\<lambda>i. case dict_get (cfg_class_mapping cfg) (int i) of
                            Some label \<Rightarrow> label
                          | None \<Rightarrow> ''class_'' @ str_of_nat i) [0..<3]) \<and>
           (cfg_n_classes cfg \<noteq> 3 \<longrightarrow> cfg_labels cfg = [''not_accessible'', ''accessible'']) \<and>
           (\<forall>l0 l1 l2.
              md_n_classes model_data = Some 3 \<and>
              md_class_mapping model_data = Some [(IntKey 0, l0), (IntKey 1, l1), (IntKey 2, l2)] \<longrightarrow>
              cfg_labels cfg = [l0, l1, l2])"
proof -
  from script_written_config [OF assms(2,1)] obtain l fi where
    l: "read_model_data ext model_data = Inr l"
    and cfg: "written_config sf w' =
      Some (make_config l (make_labels (n_classes l) (class_mapping l)) fi)"
    by blast
  let ?cfg = "make_config l (make_labels (n_classes l) (class_mapping l)) fi"
  note n = read_model_data_Inr(6) [OF l]
  note cm = read_model_data_Inr(7) [OF l]
  have fields: "cfg_n_classes ?cfg = n_classes l" "cfg_class_mapping ?cfg = class_mapping l"
    "cfg_labels ?cfg = make_labels (n_classes l) (class_mapping l)"
    by (simp_all add: make_config_def)
  have three: "cfg_n_classes ?cfg = 3 \<longrightarrow>
      cfg_labels ?cfg =
        map (\<lambda>i. case dict_get (cfg_class_mapping ?cfg) (int i) of
                    Some label \<Rightarrow> label
                  | None \<Rightarrow> ''class_'' @ str_of_nat i) [0..<3]"
    unfolding fields by (simp add: make_labels_def dict_get_default_def split: option.splits)
  have other: "cfg_n_classes ?cfg \<noteq> 3 \<longrightarrow> cfg_labels ?cfg = [''not_accessible'', ''accessible'']"
    unfolding fields by (simp add: make_labels_def)
  have special: "\<forall>l0 l1 l2.
      md_n_classes model_data = Some 3 \<and>
      md_class_mapping model_data = Some [(IntKey 0, l0), (IntKey 1, l1), (IntKey 2, l2)] \<longrightarrow>
      cfg_labels ?cfg = [l0, l1, l2]"
  proof (intro allI impI)
    fix l0 l1 l2
    assume h: "md_n_classes model_data = Some 3 \<and>
      md_class_mapping model_data = Some [(IntKey 0, l0), (IntKey 1, l1), (IntKey 2, l2)]"
    with n have n3: "n_classes l = 3" by simp
    from h cm have "class_mapping l = [(0, l0), (1, l1), (2, l2)]"
      by (simp add: py_int_def)
    with n3 show "cfg_labels ?cfg = [l0, l1, l2]"
      unfolding fields
      by (simp add: make_labels_def dict_get_default_def dict_get_def upt_rec)
  qed
  have n': "cfg_n_classes ?cfg = (case md_n_classes model_data of Some n \<Rightarrow> n | None \<Rightarrow> 2)"
    unfolding fields by (rule n)
  have cm': "int_keys ext
             (case md_class_mapping model_data of
                Some cm \<Rightarrow> cm
              | None \<Rightarrow> [(IntKey 0, ''not_accessible''), (IntKey 1, ''accessible'')]) [] =
             Inr (cfg_class_mapping ?cfg)"
    unfolding fields by (rule cm)
  show ?thesis
    by (intro exI [of _ ?cfg] conjI cfg n' cm' three other special)
qed

theorem labels_by_class_count_witness:
  "joblib_load (example_externals heuristic_artifact) (files example_world)
     (MODEL_PATH example_file (files example_world)) = Inr heuristic_artifact \<and>
   fst (script (example_externals heuristic_artifact) example_file example_world) = Inr () \<and>
   md_n_classes heuristic_artifact = Some 3 \<and>
   md_class_mapping heuristic_artifact =
     Some [(IntKey 0, ''not_accessible''), (IntKey 1, ''limited''), (IntKey 2, ''accessible'')] \<and>
   map_option cfg_labels
     (written_config example_file
        (snd (script (example_externals heuristic_artifact) example_file example_world))) =
     Some [''not_accessible'', ''limited'', ''accessible'']"
proof -
  have a: "md_n_classes heuristic_artifact = Some 3 \<and>
    md_class_mapping heuristic_artifact =
      Some [(IntKey 0, ''not_accessible''), (IntKey 1, ''limited''), (IntKey 2, ''accessible'')]"
    by (simp add: heuristic_artifact_def)
  from labels_by_class_count [OF example_load heuristic_run] obtain cfg where
    cfg: "written_config example_file
        (snd (script (example_externals heuristic_artifact) example_file example_world)) = Some cfg"
    and special: "\<forall>l0 l1 l2.
      md_n_classes heuristic_artifact = Some 3 \<and>
      md_class_mapping heuristic_artifact = Some [(IntKey 0, l0), (IntKey 1, l1), (IntKey 2, l2)] \<longrightarrow>
      cfg_labels cfg = [l0, l1, l2]"
    by blast
  from special a have "cfg_labels cfg = [''not_accessible'', ''limited'', ''accessible'']"
    by blast
  with cfg a show ?thesis
    using example_load [of heuristic_artifact] heuristic_run by (simp, metis fst_conv)
qed

text \<open>
  C3.  Once the artifact is loaded and its fields are read, the run calls the graph converter
  exactly once, on the artifact's estimator, with one declared input \<open>float_input\<close> of
  32-bit float type and shape (unbounded, number of feature columns), with the opset fixed
  to 12 and with \<open>zipmap\<close> switched off for that estimator.  When the run completes, the
  graph file holds the serialized graph the converter returned for this very call; and,
  the converter giving a label and a probability tensor whenever \<open>zipmap\<close> is off (which is
  what lines 62 and 63 of the script rely on), the outputs of that graph are exactly the
  predicted label, then the probability tensor: no dictionary-shaped output.
\<close>

theorem conversion_call_is_pinned:
  assumes "joblib_load ext (files w) (MODEL_PATH sf (files w)) = Inr model_data"
    and "read_model_data ext model_data = Inr l"
    and "script ext sf w = (r, w')"
  shows "md_model model_data = Some (model l) \<and>
         md_feature_columns model_data = Some (feature_cols l) \<and>
         conversions w' =
           conversions w @
             [\<lparr>cc_model = model l,
               cc_initial_types =
                 [(''float_input'', FloatTensorType [None, Some (length (feature_cols l))])],
               cc_target_opset = 12,
               cc_options = [(model l, [(''zipmap'', False)])]\<rparr>] \<and>
         (r = Inr () \<longrightarrow>
            (\<exists>g. convert_sklearn ext
                    \<lparr>cc_model = model l,
                      cc_initial_types =
                        [(''float_input'', FloatTensorType [None, Some (length (feature_cols l))])],
                      cc_target_opset = 12,
                      cc_options = [(model l, [(''zipmap'', False)])]\<rparr> = Inr g \<and>
                 files w' (ONNX_OUTPUT_PATH sf) = Some (File (Bytes (SerializeToString g))) \<and>
                 (honours_zipmap_option ext \<longrightarrow>
                    graph_outputs g = [LabelOutput, ProbabilityTensor] \<and>
                    ProbabilityDictSequence \<notin> set (graph_outputs g))))"
proof -
  have call: "conversion_call (model l) (feature_cols l) =
      \<lparr>cc_model = model l,
        cc_initial_types =
          [(''float_input'', FloatTensorType [None, Some (length (feature_cols l))])],
        cc_target_opset = 12,
        cc_options = [(model l, [(''zipmap'', False)])]\<rparr>"
    by (simp add: conversion_call_def)
  have off: "zipmap_disabled (conversion_call (model l) (feature_cols l))"
    by (simp add: conversion_call_def zipmap_disabled_def)
  have written: "r = Inr () \<longrightarrow>
      (\<exists>g. convert_sklearn ext (conversion_call (model l) (feature_cols l)) = Inr g \<and>
           files w' (ONNX_OUTPUT_PATH sf) = Some (File (Bytes (SerializeToString g))) \<and>
           (honours_zipmap_option ext \<longrightarrow>
              graph_outputs g = [LabelOutput, ProbabilityTensor] \<and>
              ProbabilityDictSequence \<notin> set (graph_outputs g)))"
  proof
    assume "r = Inr ()"
    with assms(3) have run: "script ext sf w = (Inr (), w')" by simp
    from script_written_config [OF run assms(1)] assms(2) obtain g where
      g: "convert_sklearn ext (conversion_call (model l) (feature_cols l)) = Inr g"
      and saved: "files w' (ONNX_OUTPUT_PATH sf) = Some (File (Bytes (SerializeToString g)))"
      by auto
    have "honours_zipmap_option ext \<longrightarrow>
              graph_outputs g = [LabelOutput, ProbabilityTensor] \<and>
              ProbabilityDictSequence \<notin> set (graph_outputs g)"
    proof
      assume "honours_zipmap_option ext"
      with off g have "graph_outputs g = [LabelOutput, ProbabilityTensor]"
        unfolding honours_zipmap_option_def by blast
      then show "graph_outputs g = [LabelOutput, ProbabilityTensor] \<and>
              ProbabilityDictSequence \<notin> set (graph_outputs g)" by simp
    qed
    with g saved
    show "\<exists>g. convert_sklearn ext (conversion_call (model l) (feature_cols l)) = Inr g \<and>
           files w' (ONNX_OUTPUT_PATH sf) = Some (File (Bytes (SerializeToString g))) \<and>
           (honours_zipmap_option ext \<longrightarrow>
              graph_outputs g = [LabelOutput, ProbabilityTensor] \<and>
              ProbabilityDictSequence \<notin> set (graph_outputs g))"
      by blast
  qed
  from read_model_data_Inr(1,3) [OF assms(2)] script_conversions [OF assms(3,1,2)] written
  show ?thesis unfolding call by simp
qed

lemma example_converter_honours_zipmap: "honours_zipmap_option (example_externals a)"
  by (auto simp: honours_zipmap_option_def example_externals_def)

theorem conversion_call_is_pinned_witness:
  "joblib_load (example_externals heuristic_artifact) (files example_world)
     (MODEL_PATH example_file (files example_world)) = Inr heuristic_artifact \<and>
   fst (script (example_externals heuristic_artifact) example_file example_world) = Inr () \<and>
   honours_zipmap_option (example_externals heuristic_artifact) \<and>
   conversions (snd (script (example_externals heuristic_artifact) example_file example_world)) =
     [\<lparr>cc_model = \<lparr>internals = (), feature_importances_attr = None\<rparr>,
       cc_initial_types = [(''float_input'', FloatTensorType [None, Some 4])],
       cc_target_opset = 12,
       cc_options = [(\<lparr>internals = (), feature_importances_attr = None\<rparr>, [(''zipmap'', False)])]\<rparr>] \<and>
   files (snd (script (example_externals heuristic_artifact) example_file example_world))
     (ONNX_OUTPUT_PATH example_file) = Some (File (Bytes ''graph'')) \<and>
   map_option graph_outputs
     (case convert_sklearn (example_externals heuristic_artifact)
        \<lparr>cc_model = \<lparr>internals = (), feature_importances_attr = None\<rparr>,
         cc_initial_types = [(''float_input'', FloatTensorType [None, Some 4])],
         cc_target_opset = 12,
         cc_options = [(\<lparr>internals = (), feature_importances_attr = None\<rparr>, [(''zipmap'', False)])]\<rparr>
      of Inl e \<Rightarrow> None | Inr g \<Rightarrow> Some g) =
     Some [LabelOutput, ProbabilityTensor]"
proof -
  let ?run = "script (example_externals heuristic_artifact) example_file example_world"
  let ?call = "\<lparr>cc_model = \<lparr>internals = (), feature_importances_attr = None\<rparr>,
       cc_initial_types = [(''float_input'', FloatTensorType [None, Some 4])],
       cc_target_opset = 12,
       cc_options = [(\<lparr>internals = (), feature_importances_attr = None\<rparr>, [(''zipmap'', False)])]\<rparr>
       :: unit convert_call"
  note pinned = conversion_call_is_pinned [OF example_load heuristic_loaded heuristic_run]
  have ok: "fst ?run = Inr ()" using heuristic_run by (metis fst_conv)
  from pinned have calls: "conversions (snd ?run) = [?call]"
    by (simp add: example_world_def)
  from pinned ok have ex: "\<exists>g.
      convert_sklearn (example_externals heuristic_artifact) ?call = Inr g \<and>
      files (snd ?run) (ONNX_OUTPUT_PATH example_file) =
        Some (File (Bytes (SerializeToString g))) \<and>
      (honours_zipmap_option (example_externals heuristic_artifact) \<longrightarrow>
         graph_outputs g = [LabelOutput, ProbabilityTensor] \<and>
         ProbabilityDictSequence \<notin> set (graph_outputs g))"
    by (simp add: numeral_eq_Suc)
  then obtain g where
    g: "convert_sklearn (example_externals heuristic_artifact) ?call = Inr g"
    and saved: "files (snd ?run) (ONNX_OUTPUT_PATH example_file) =
      Some (File (Bytes (SerializeToString g)))"
    and out: "honours_zipmap_option (example_externals heuristic_artifact) \<longrightarrow>
      graph_outputs g = [LabelOutput, ProbabilityTensor] \<and>
      ProbabilityDictSequence \<notin> set (graph_outputs g)"
    by blast
  from out example_converter_honours_zipmap
  have outputs: "graph_outputs g = [LabelOutput, ProbabilityTensor]" by blast
  from g have "SerializeToString g = ''graph''"
    by (auto simp: example_externals_def)
  with saved have saved': "files (snd ?run) (ONNX_OUTPUT_PATH example_file) =
      Some (File (Bytes ''graph''))" by simp
  have last: "map_option graph_outputs
     (case convert_sklearn (example_externals heuristic_artifact) ?call
      of Inl e \<Rightarrow> None | Inr g \<Rightarrow> Some g) = Some [LabelOutput, ProbabilityTensor]"
    by (simp add: g outputs)
  show ?thesis
    by (intro conjI example_load ok example_converter_honours_zipmap calls saved' last)
qed

lemma mixed_case_run:
  "script (example_externals mixed_case_artifact) example_file example_world =
     (Inr (), snd (script (example_externals mixed_case_artifact) example_file example_world))"
proof -
  have "fst (script (example_externals mixed_case_artifact) example_file example_world) = Inr ()"
    by (simp add: mixed_case_artifact_def example_defs path_defs fs_defs run_defs)
  then show ?thesis by (metis prod.collapse)
qed

lemma heuristic_rule_computed:
  "(if col \<notin> set fc then None
    else if \<exists>v\<in>set accessibility_positive. contains_ignoring_case col v then Some (Finite 0.15)
    else if \<exists>v\<in>set accessibility_negative. contains_ignoring_case col v then Some (Finite 0.12)
    else if \<exists>v\<in>set place_type. contains_ignoring_case col v then Some (Finite 0.08)
    else if begins_ignoring_case col ''has_'' then Some (Finite 0.05)
    else None) =
   (if col \<in> set fc \<and> float_gt (column_importance col) (Finite 0.01)
    then Some (column_importance col) else None)"
  unfolding heuristic_importances_lookup_ignoring_case [symmetric]
  by (simp add: heuristic_importances_def heuristic_fold_lookup dict_get_empty)

lemmas string_defs =
  lower_def char_lower_def upper_chars_def lower_chars_def py_any_def startswith_def
  accessibility_positive_def accessibility_negative_def place_type_def

lemma example_column_importances:
  "column_importance ''has_ramp'' = Finite 0.15"
  "column_importance ''stairs_present'' = Finite 0.12"
  "column_importance ''random_flag_7'' = Finite 0.01"
  "column_importance ''HAS_RAMP'' = Finite 0.15"
  "column_importance ''Stairs_Present'' = Finite 0.12"
  "column_importance ''Shop_X'' = Finite 0.08"
  "column_importance ''Has_Wifi'' = Finite 0.05"
  "column_importance ''RANDOM_FLAG_7'' = Finite 0.01"
  by (simp_all add: column_importance_def string_defs)

text \<open>
  C4.  When the estimator has native importances, one per feature column, and the run
  completes, a name is in the written importance map exactly when one of its columns has
  an importance above zero, and it is mapped to that importance (the last such column
  decides when a name occurs more than once).  For column names without repetition:
  each column with a positive importance is mapped to it, and each column whose importance
  is 0.0 (or otherwise not above zero) is left out.
\<close>

theorem native_importances_positive_only:
  assumes "joblib_load ext (files w) (MODEL_PATH sf (files w)) = Inr model_data"
    and "script ext sf w = (Inr u, w')"
    and "md_model model_data = Some m"
    and "feature_importances_attr m = Some importances"
    and "md_feature_columns model_data = Some fc"
    and "length importances = length fc"
  shows "\<exists>cfg. written_config sf w' = Some cfg \<and>
           (\<forall>c v. dict_get (cfg_feature_importances cfg) c = Some v \<longleftrightarrow>
              (\<exists>i<length fc. fc ! i = c \<and> float_gt (importances ! i) (Finite 0) \<and>
                 v = importances ! i \<and>
                 (\<forall>j. i < j \<and> j < length fc \<and> fc ! j = c \<longrightarrow>
                    \<not> float_gt (importances ! j) (Finite 0)))) \<and>
           (distinct fc \<longrightarrow>
              (\<forall>i<length fc.
                 dict_get (cfg_feature_importances cfg) (fc ! i) =
                   (if float_gt (importances ! i) (Finite 0) then Some (importances ! i)
                    else None)))"
proof -
  from script_written_config [OF assms(2,1)] obtain l fi where
    l: "read_model_data ext model_data = Inr l"
    and fi: "(case feature_importances_attr (model l) of
              Some imps \<Rightarrow> native_importances (enumerate 0 imps) (feature_cols l) [] = Inr fi
            | None \<Rightarrow> fi = heuristic_importances (feature_cols l))"
    and cfg: "written_config sf w' =
      Some (make_config l (make_labels (n_classes l) (class_mapping l)) fi)"
    by blast
  let ?cfg = "make_config l (make_labels (n_classes l) (class_mapping l)) fi"
  from read_model_data_Inr(1,3) [OF l] assms(3,5)
  have same: "model l = m" "feature_cols l = fc" by simp_all
  with fi assms(4) have run: "native_importances (enumerate 0 importances) fc [] = Inr fi"
    by simp
  from native_importances_aligned [of importances fc] assms(6) run
  have look: "\<forall>c v. dict_get fi c = Some v \<longleftrightarrow>
      (\<exists>i<length importances. fc ! i = c \<and> float_gt (importances ! i) (Finite 0) \<and>
         v = importances ! i \<and>
         (\<forall>j. i < j \<and> j < length importances \<and> fc ! j = c \<longrightarrow>
            \<not> float_gt (importances ! j) (Finite 0)))"
    by auto
  have fi_cfg: "cfg_feature_importances ?cfg = fi" by (simp add: make_config_def)
  have first: "\<forall>c v. dict_get (cfg_feature_importances ?cfg) c = Some v \<longleftrightarrow>
      (\<exists>i<length fc. fc ! i = c \<and> float_gt (importances ! i) (Finite 0) \<and>
         v = importances ! i \<and>
         (\<forall>j. i < j \<and> j < length fc \<and> fc ! j = c \<longrightarrow>
            \<not> float_gt (importances ! j) (Finite 0)))"
    unfolding fi_cfg using look assms(6) by simp
  have second: "distinct fc \<longrightarrow>
      (\<forall>i<length fc.
         dict_get (cfg_feature_importances ?cfg) (fc ! i) =
           (if float_gt (importances ! i) (Finite 0) then Some (importances ! i) else None))"
  proof (intro impI allI)
    fix i
    assume d: "distinct fc" and i: "i < length fc"
    show "dict_get (cfg_feature_importances ?cfg) (fc ! i) =
           (if float_gt (importances ! i) (Finite 0) then Some (importances ! i) else None)"
    proof (cases "float_gt (importances ! i) (Finite 0)")
      case True
      have "\<forall>j. i < j \<and> j < length fc \<and> fc ! j = fc ! i \<longrightarrow>
          \<not> float_gt (importances ! j) (Finite 0)"
        using d i by (auto simp: nth_eq_iff_index_eq)
      with True i first show ?thesis by auto
    next
      case False
      have "dict_get (cfg_feature_importances ?cfg) (fc ! i) = None"
      proof (rule ccontr)
        assume "dict_get (cfg_feature_importances ?cfg) (fc ! i) \<noteq> None"
        then obtain v where "dict_get (cfg_feature_importances ?cfg) (fc ! i) = Some v" by auto
        with first obtain k where k: "k < length fc" "fc ! k = fc ! i"
          "float_gt (importances ! k) (Finite 0)" by blast
        with d i have "k = i" by (simp add: nth_eq_iff_index_eq)
        with k False show False by simp
      qed
      with False show ?thesis by simp
    qed
  qed
  show ?thesis by (intro exI [of _ ?cfg] conjI cfg first second)
qed

theorem native_importances_positive_only_witness:
  "joblib_load (example_externals native_artifact) (files example_world)
     (MODEL_PATH example_file (files example_world)) = Inr native_artifact \<and>
   fst (script (example_externals native_artifact) example_file example_world) = Inr () \<and>
   md_model native_artifact =
     Some \<lparr>internals = (), feature_importances_attr = Some [Finite 0.2, Finite 0]\<rparr> \<and>
   md_feature_columns native_artifact = Some [''has_ramp'', ''amenity_cafe''] \<and>
   map_option (\<lambda>cfg. dict_get (cfg_feature_importances cfg) ''has_ramp'')
     (written_config example_file
        (snd (script (example_externals native_artifact) example_file example_world))) =
     Some (Some (Finite 0.2)) \<and>
   map_option (\<lambda>cfg. dict_get (cfg_feature_importances cfg) ''amenity_cafe'')
     (written_config example_file
        (snd (script (example_externals native_artifact) example_file example_world))) =
     Some None"
proof -
  have m: "md_model native_artifact =
     Some \<lparr>internals = (), feature_importances_attr = Some [Finite 0.2, Finite 0]\<rparr>"
    and fc: "md_feature_columns native_artifact = Some [''has_ramp'', ''amenity_cafe'']"
    by (simp_all add: native_artifact_def)
  have imps: "feature_importances_attr
      \<lparr>internals = (), feature_importances_attr = Some [Finite 0.2, Finite 0]\<rparr> =
      Some [Finite 0.2, Finite 0]" by simp
  have len: "length [Finite 0.2, Finite 0] = length [''has_ramp'', ''amenity_cafe'']" by simp
  from native_importances_positive_only [OF example_load native_run m imps fc len]
  obtain cfg where
    cfg: "written_config example_file
        (snd (script (example_externals native_artifact) example_file example_world)) = Some cfg"
    and each: "distinct [''has_ramp'', ''amenity_cafe''] \<longrightarrow>
      (\<forall>i<length [''has_ramp'', ''amenity_cafe''].
         dict_get (cfg_feature_importances cfg) ([''has_ramp'', ''amenity_cafe''] ! i) =
           (if float_gt ([Finite 0.2, Finite 0] ! i) (Finite 0)
            then Some ([Finite 0.2, Finite 0] ! i) else None))"
    by blast
  from each have all: "\<forall>i<2.
         dict_get (cfg_feature_importances cfg) ([''has_ramp'', ''amenity_cafe''] ! i) =
           (if float_gt ([Finite 0.2, Finite 0] ! i) (Finite 0)
            then Some ([Finite 0.2, Finite 0] ! i) else None)"
    by simp
  from all [rule_format, of 0] all [rule_format, of 1]
  have "dict_get (cfg_feature_importances cfg) ''has_ramp'' = Some (Finite 0.2)"
    "dict_get (cfg_feature_importances cfg) ''amenity_cafe'' = None"
    by simp_all
  with cfg m fc show ?thesis
    using example_load [of native_artifact] native_run by (simp, metis fst_conv)
qed

text \<open>
  C5.  When the estimator has no native importances and the run completes, the written
  importance map gives each feature column the value of the first rule that applies to
  its name, letters compared without regard to case: 0.15 if the name contains a word of
  the accessibility-positive vocabulary, else 0.12 if it contains a word of the
  accessibility-negative vocabulary, else 0.08 if it contains a place-type word, else 0.05
  if it begins with \<open>has_\<close>; a column none of these applies to (base importance 0.01)
  is not in the map, and neither is any name that is not a feature column.  So
  \<open>has_ramp\<close> and \<open>HAS_RAMP\<close> get 0.15, \<open>stairs_present\<close> gets 0.12 and
  \<open>random_flag_7\<close> is left out.
\<close>

theorem heuristic_importance_by_priority:
  assumes "joblib_load ext (files w) (MODEL_PATH sf (files w)) = Inr model_data"
    and "script ext sf w = (Inr u, w')"
    and "md_model model_data = Some m"
    and "feature_importances_attr m = None"
    and "md_feature_columns model_data = Some fc"
  shows "\<exists>cfg. written_config sf w' = Some cfg \<and>
           (\<forall>col. dict_get (cfg_feature_importances cfg) col =
              (if col \<notin> set fc then None
               else if \<exists>v\<in>set accessibility_positive. contains_ignoring_case col v
                 then Some (Finite 0.15)
               else if \<exists>v\<in>set accessibility_negative. contains_ignoring_case col v
                 then Some (Finite 0.12)
               else if \<exists>v\<in>set place_type. contains_ignoring_case col v
                 then Some (Finite 0.08)
               else if begins_ignoring_case col ''has_'' then Some (Finite 0.05)
               else None))"
proof -
  from script_written_config [OF assms(2,1)] obtain l fi where
    l: "read_model_data ext model_data = Inr l"
    and fi: "(case feature_importances_attr (model l) of
              Some imps \<Rightarrow> native_importances (enumerate 0 imps) (feature_cols l) [] = Inr fi
            | None \<Rightarrow> fi = heuristic_importances (feature_cols l))"
    and cfg: "written_config sf w' =
      Some (make_config l (make_labels (n_classes l) (class_mapping l)) fi)"
    by blast
  let ?cfg = "make_config l (make_labels (n_classes l) (class_mapping l)) fi"
  from read_model_data_Inr(1,3) [OF l] assms(3,5)
  have same: "model l = m" "feature_cols l = fc" by simp_all
  with fi assms(4) have "fi = heuristic_importances fc" by simp
  then have fi_cfg: "cfg_feature_importances ?cfg = heuristic_importances fc"
    by (simp add: make_config_def)
  show ?thesis
    by (intro exI [of _ ?cfg] conjI cfg allI)
       (simp only: fi_cfg heuristic_importances_lookup_ignoring_case)
qed

theorem heuristic_importance_by_priority_witness:
  "joblib_load (example_externals mixed_case_artifact) (files example_world)
     (MODEL_PATH example_file (files example_world)) = Inr mixed_case_artifact \<and>
   fst (script (example_externals mixed_case_artifact) example_file example_world) = Inr () \<and>
   md_model mixed_case_artifact = Some \<lparr>internals = (), feature_importances_attr = None\<rparr> \<and>
   md_feature_columns mixed_case_artifact =
     Some [''has_ramp'', ''stairs_present'', ''random_flag_7'', ''HAS_RAMP'',
           ''Stairs_Present'', ''Shop_X'', ''Has_Wifi'', ''RANDOM_FLAG_7''] \<and>
   map_option (\<lambda>cfg. map (dict_get (cfg_feature_importances cfg))
                 [''has_ramp'', ''stairs_present'', ''random_flag_7'', ''HAS_RAMP'',
                  ''Stairs_Present'', ''Shop_X'', ''Has_Wifi'', ''RANDOM_FLAG_7'',
                  ''not_a_column''])
     (written_config example_file
        (snd (script (example_externals mixed_case_artifact) example_file example_world))) =
     Some [Some (Finite 0.15), Some (Finite 0.12), None, Some (Finite 0.15),
           Some (Finite 0.12), Some (Finite 0.08), Some (Finite 0.05), None, None]"
proof -
  have m: "md_model mixed_case_artifact = Some \<lparr>internals = (), feature_importances_attr = None\<rparr>"
    and fc: "md_feature_columns mixed_case_artifact =
      Some [''has_ramp'', ''stairs_present'', ''random_flag_7'', ''HAS_RAMP'',
            ''Stairs_Present'', ''Shop_X'', ''Has_Wifi'', ''RANDOM_FLAG_7'']"
    by (simp_all add: mixed_case_artifact_def)
  have none: "feature_importances_attr \<lparr>internals = (), feature_importances_attr = None\<rparr> = None"
    by simp
  have ok: "fst (script (example_externals mixed_case_artifact) example_file example_world) =
      Inr ()"
    using mixed_case_run by (metis fst_conv)
  from heuristic_importance_by_priority [OF example_load mixed_case_run m none fc]
  obtain cfg where
    cfg: "written_config example_file
        (snd (script (example_externals mixed_case_artifact) example_file example_world)) = Some cfg"
    and rule: "\<And>col. dict_get (cfg_feature_importances cfg) col =
       (if col \<in> set [''has_ramp'', ''stairs_present'', ''random_flag_7'', ''HAS_RAMP'',
                       ''Stairs_Present'', ''Shop_X'', ''Has_Wifi'', ''RANDOM_FLAG_7''] \<and>
           float_gt (column_importance col) (Finite 0.01)
        then Some (column_importance col) else None)"
    unfolding heuristic_rule_computed by blast
  have looked_up: "map (dict_get (cfg_feature_importances cfg))
          [''has_ramp'', ''stairs_present'', ''random_flag_7'', ''HAS_RAMP'',
           ''Stairs_Present'', ''Shop_X'', ''Has_Wifi'', ''RANDOM_FLAG_7'', ''not_a_column''] =
        [Some (Finite 0.15), Some (Finite 0.12), None, Some (Finite 0.15),
         Some (Finite 0.12), Some (Finite 0.08), Some (Finite 0.05), None, None]"
    by (simp add: rule example_column_importances)
  have last: "map_option (\<lambda>cfg. map (dict_get (cfg_feature_importances cfg))
                 [''has_ramp'', ''stairs_present'', ''random_flag_7'', ''HAS_RAMP'',
                  ''Stairs_Present'', ''Shop_X'', ''Has_Wifi'', ''RANDOM_FLAG_7'',
                  ''not_a_column''])
     (written_config example_file
        (snd (script (example_externals mixed_case_artifact) example_file example_world))) =
     Some [Some (Finite 0.15), Some (Finite 0.12), None, Some (Finite 0.15),
           Some (Finite 0.12), Some (Finite 0.08), Some (Finite 0.05), None, None]"
    by (simp only: cfg option.map looked_up)
  show ?thesis
    by (intro conjI example_load ok m fc last)
qed

text \<open>
  C6 does not hold of the code.  The tag name is computed with \<open>col.replace('has_', '')\<close>,
  which removes every occurrence of \<open>has_\<close>, not only the leading one: the column
  \<open>has_has_wifi\<close> (presence of the tag \<open>has_wifi\<close>) is recorded with the tag
  \<open>tags.wifi\<close>, while stripping the prefix alone gives \<open>tags.has_wifi\<close>.
\<close>

theorem has_prefix_replaced_everywhere:
  "startswith ''has_has_wifi'' ''has_'' \<and>
   has_features (generate_encoding_info [] [''has_has_wifi'']) =
     [\<lparr>column = ''has_has_wifi'', tag = ''tags.wifi''\<rparr>] \<and>
   ''tags.'' @ drop (length ''has_'') ''has_has_wifi'' = ''tags.has_wifi''"
  by (simp add: generate_encoding_info_def encoding_step_def startswith_def str_replace.simps)

text \<open>
  C7.  Take a feature column that does not begin with \<open>has_\<close>.  If its name contains
  an underscore, the name splits at the first underscore into a tag name and a value, and
  the encoding info returned for the whole column list maps that tag name and value back
  to the column.  If the name contains no underscore, the column is recorded nowhere: not
  among the presence features, and under no tag name and value.  The function has no
  failing branch.
\<close>

theorem categorical_round_trip:
  assumes "col \<in> set feature_columns"
    and "\<not> startswith col ''has_''"
  shows "(CHR ''_'' \<in> set col \<longrightarrow>
            (\<exists>t v. split_once col CHR ''_'' = [t, v] \<and> col = t @ ''_'' @ v \<and>
               categorical_lookup (generate_encoding_info useful_features feature_columns) t v =
                 Some col)) \<and>
         (CHR ''_'' \<notin> set col \<longrightarrow>
            split_once col CHR ''_'' = [col] \<and>
            col \<notin> set (map column
                        (has_features (generate_encoding_info useful_features feature_columns))) \<and>
            (\<forall>t v. categorical_lookup (generate_encoding_info useful_features feature_columns) t v
                     \<noteq> Some col))"
proof (intro conjI impI)
  assume u: "CHR ''_'' \<in> set col"
  from split_once_some [OF u] obtain t v where tv: "split_once col CHR ''_'' = [t, v]" by blast
  then have col: "col = t @ CHR ''_'' # v" and t: "CHR ''_'' \<notin> set t"
    by (simp_all add: split_once_two)
  have "categorical_lookup (generate_encoding_info useful_features feature_columns) t v = Some col"
    unfolding generate_encoding_info_def categorical_lookup_foldl
    using assms col t by auto
  with tv col
  show "\<exists>t v. split_once col CHR ''_'' = [t, v] \<and> col = t @ ''_'' @ v \<and>
      categorical_lookup (generate_encoding_info useful_features feature_columns) t v = Some col"
    by auto
next
  assume n: "CHR ''_'' \<notin> set col"
  then show "split_once col CHR ''_'' = [col]" by (rule split_once_none)
next
  assume n: "CHR ''_'' \<notin> set col"
  show "col \<notin> set (map column
      (has_features (generate_encoding_info useful_features feature_columns)))"
    unfolding generate_encoding_info_def has_features_foldl
    using assms(2) by (auto simp: comp_def)
next
  assume n: "CHR ''_'' \<notin> set col"
  show "\<forall>t v. categorical_lookup (generate_encoding_info useful_features feature_columns) t v
      \<noteq> Some col"
    unfolding generate_encoding_info_def categorical_lookup_foldl
    using n by (auto simp: categorical_lookup_def dict_get_empty)
qed

theorem categorical_round_trip_witness:
  "''amenity_cafe'' \<in> set [''has_elevator'', ''amenity_cafe'', ''plain''] \<and>
   \<not> startswith ''amenity_cafe'' ''has_'' \<and>
   ''plain'' \<in> set [''has_elevator'', ''amenity_cafe'', ''plain''] \<and>
   \<not> startswith ''plain'' ''has_'' \<and>
   split_once ''amenity_cafe'' CHR ''_'' = [''amenity'', ''cafe''] \<and>
   categorical_lookup
     (generate_encoding_info [] [''has_elevator'', ''amenity_cafe'', ''plain''])
     ''amenity'' ''cafe'' = Some ''amenity_cafe'' \<and>
   ''plain'' \<notin> set (map column
     (has_features (generate_encoding_info [] [''has_elevator'', ''amenity_cafe'', ''plain''])))"
proof -
  have a: "''amenity_cafe'' \<in> set [''has_elevator'', ''amenity_cafe'', ''plain'']"
    and b: "\<not> startswith ''amenity_cafe'' ''has_''"
    and c: "''plain'' \<in> set [''has_elevator'', ''amenity_cafe'', ''plain'']"
    and d: "\<not> startswith ''plain'' ''has_''"
    and s: "split_once ''amenity_cafe'' CHR ''_'' = [''amenity'', ''cafe'']"
    by (simp_all add: startswith_def split_once_def)
  from categorical_round_trip [OF a b, of "[]"] categorical_round_trip [OF c d, of "[]"]
  show ?thesis using a b c d s by simp
qed

text \<open>
  C10.  The encoding info is a function of the feature column list alone: two calls with
  the same \<open>feature_columns\<close> return the same result whatever \<open>useful_features\<close> is.
\<close>

theorem encoding_info_ignores_useful_features:
  "generate_encoding_info useful_features1 feature_columns =
   generate_encoding_info useful_features2 feature_columns"
  by (simp add: generate_encoding_info_def)

text \<open>
  C8.  \<open>MODEL_PATH\<close> is the first of the three candidate paths (geographic, worldwide,
  3-class best overall) that exists.  When none of them exists, the run stops with
  \<open>FileNotFoundError\<close> in \<open>joblib.load\<close>: it has printed its first two lines, it has not
  called the converter, and the files are exactly those found at the start, so neither
  output file has been created or touched.
\<close>

theorem model_path_first_existing:
  "(\<forall>p. find (exists (files w)) (candidate_paths sf) = Some p \<longrightarrow>
        MODEL_PATH sf (files w) = p) \<and>
   (find (exists (files w)) (candidate_paths sf) = None \<longrightarrow>
      script ext sf w =
        (Inl (FileNotFoundError
               (PROJECT_ROOT sf @ [''accessibility_model_3class_best_overall.joblib''])),
         w\<lparr>stdout := stdout w @
              [LoadingModel,
               ModelPathIs
                 (PROJECT_ROOT sf @ [''accessibility_model_3class_best_overall.joblib''])]\<rparr>) \<and>
      files (snd (script ext sf w)) = files w \<and>
      conversions (snd (script ext sf w)) = conversions w)"
proof (intro conjI allI impI)
  fix p
  assume "find (exists (files w)) (candidate_paths sf) = Some p"
  then show "MODEL_PATH sf (files w) = p"
    by (auto simp: candidate_paths_def MODEL_PATH_def Let_def split: if_splits)
next
  assume none: "find (exists (files w)) (candidate_paths sf) = None"
  let ?last = "PROJECT_ROOT sf @ [''accessibility_model_3class_best_overall.joblib'']"
  from none have mp: "MODEL_PATH sf (files w) = ?last" and missing: "\<not> exists (files w) ?last"
    by (auto simp: candidate_paths_def MODEL_PATH_def Let_def split: if_splits)
  from missing have "node_at (files w) ?last = None" by (simp add: exists_def)
  then have load: "joblib_load ext (files w) ?last = Inl (FileNotFoundError ?last)"
    by (simp add: joblib_load_def read_file_def)
  have wo: "write_outputs ext sf ?last w =
        (Inl (FileNotFoundError ?last),
         w\<lparr>stdout := stdout w @ [LoadingModel, ModelPathIs ?last]\<rparr>)"
    unfolding write_outputs_def
    by (simp add: and_then_print and_then_reading load)
  show run: "script ext sf w =
        (Inl (FileNotFoundError ?last),
         w\<lparr>stdout := stdout w @ [LoadingModel, ModelPathIs ?last]\<rparr>)"
    unfolding script_def main_def mp
    by (simp add: and_then_def [of "write_outputs ext sf ?last"] wo)
  show "files (snd (script ext sf w)) = files w" by (simp add: run)
  show "conversions (snd (script ext sf w)) = conversions w" by (simp add: run)
qed

theorem model_path_first_existing_witness:
  "find (exists (files example_world)) (candidate_paths example_file) =
     Some [''repo'', ''accessibility_model_worldwide.joblib''] \<and>
   MODEL_PATH example_file (files example_world) =
     [''repo'', ''accessibility_model_worldwide.joblib''] \<and>
   find (exists (files empty_world)) (candidate_paths example_file) = None \<and>
   script (example_externals heuristic_artifact) example_file empty_world =
     (Inl (FileNotFoundError [''repo'', ''accessibility_model_3class_best_overall.joblib'']),
      empty_world\<lparr>stdout :=
        [LoadingModel,
         ModelPathIs [''repo'', ''accessibility_model_3class_best_overall.joblib'']]\<rparr>) \<and>
   files (snd (script (example_externals heuristic_artifact) example_file empty_world)) =
     files empty_world"
proof -
  have a: "find (exists (files example_world)) (candidate_paths example_file) =
     Some [''repo'', ''accessibility_model_worldwide.joblib'']"
    by (simp add: example_defs path_defs fs_defs)
  have b: "find (exists (files empty_world)) (candidate_paths example_file) = None"
    by (simp add: example_defs path_defs fs_defs)
  have root: "PROJECT_ROOT example_file = [''repo'']"
    by (simp add: example_defs path_defs)
  have out: "stdout empty_world = []" by (simp add: empty_world_def)
  from model_path_first_existing
    [of example_world example_file "example_externals heuristic_artifact"]
    model_path_first_existing
    [of empty_world example_file "example_externals heuristic_artifact"]
  show ?thesis using a b by (simp add: root out)
qed

text \<open>
  C9.  Suppose the steps before the smoke test have succeeded.  Then both output files are
  in place, the run returns normally whatever the smoke test does, and the files at the end
  are the files as they were when the configuration document had been saved.  If the smoke
  test raises an error \<open>e\<close> (the runtime cannot be imported, or loading or running the
  graph fails), the run prints one message for it, then its closing line.
\<close>

theorem smoke_test_cannot_fail_the_run:
  assumes "write_outputs ext sf (MODEL_PATH sf (files w)) w = (Inr l, w1)"
  shows "fst (script ext sf w) = Inr () \<and>
         files (snd (script ext sf w)) = files w1 \<and>
         (\<exists>g cfg. files w1 (ONNX_OUTPUT_PATH sf) = Some (File (Bytes g)) \<and>
                   files w1 (CONFIG_OUTPUT_PATH sf) = Some (File (JsonDoc cfg))) \<and>
         (\<forall>e w2.
            test_inference ext (ONNX_OUTPUT_PATH sf) (length (feature_cols l))
              (w1\<lparr>stdout := stdout w1 @ [TestingInference]\<rparr>) = (Inl e, w2) \<longrightarrow>
            script ext sf w =
              (Inr (),
               w2\<lparr>stdout := stdout w2 @
                    [if e = ImportError then OrtNotInstalled else TestInferenceError e,
                     Done]\<rparr>))"
proof -
  let ?wt = "w1\<lparr>stdout := stdout w1 @ [TestingInference]\<rparr>"
  let ?smoke = "smoke_test ext (ONNX_OUTPUT_PATH sf) (length (feature_cols l))"
  have run: "script ext sf w = and_then ?smoke (\<lambda>_. print Done) ?wt"
    unfolding script_def main_def
    by (simp add: and_then_def [of "write_outputs ext sf (MODEL_PATH sf (files w))"] assms
        and_then_print)
  obtain r3 w3 where s: "?smoke ?wt = (r3, w3)" by (cases "?smoke ?wt")
  from smoke_test_eq [OF s] have r3: "r3 = Inr ()" and f3: "files w3 = files w1" by simp_all
  have fin: "script ext sf w = (Inr (), w3\<lparr>stdout := stdout w3 @ [Done]\<rparr>)"
    unfolding run by (simp add: and_then_def s r3 print_def)
  from write_outputs_Inr [OF assms] obtain g fi fs0 where
    "files w1 =
       fs0(ONNX_OUTPUT_PATH sf \<mapsto> File (Bytes g),
           CONFIG_OUTPUT_PATH sf \<mapsto>
             File (JsonDoc (make_config l (make_labels (n_classes l) (class_mapping l)) fi)))"
    by blast
  then have both: "\<exists>g cfg. files w1 (ONNX_OUTPUT_PATH sf) = Some (File (Bytes g)) \<and>
                   files w1 (CONFIG_OUTPUT_PATH sf) = Some (File (JsonDoc cfg))"
    using output_paths_differ [of sf] by simp
  have caught: "\<forall>e w2.
            test_inference ext (ONNX_OUTPUT_PATH sf) (length (feature_cols l)) ?wt = (Inl e, w2) \<longrightarrow>
            script ext sf w =
              (Inr (),
               w2\<lparr>stdout := stdout w2 @
                    [if e = ImportError then OrtNotInstalled else TestInferenceError e,
                     Done]\<rparr>)"
  proof (intro allI impI)
    fix e w2
    assume t: "test_inference ext (ONNX_OUTPUT_PATH sf) (length (feature_cols l)) ?wt = (Inl e, w2)"
    from smoke_test_caught [OF t] s
    have "w3 = w2\<lparr>stdout := stdout w2 @
        [if e = ImportError then OrtNotInstalled else TestInferenceError e]\<rparr>"
      by simp
    then show "script ext sf w =
              (Inr (),
               w2\<lparr>stdout := stdout w2 @
                    [if e = ImportError then OrtNotInstalled else TestInferenceError e,
                     Done]\<rparr>)"
      unfolding fin by simp
  qed
  show ?thesis
    using both caught by (simp add: fin f3)
qed

lemma heuristic_outputs:
  "write_outputs (example_externals heuristic_artifact) example_file
     (MODEL_PATH example_file (files example_world)) example_world =
     (Inr \<lparr>model = \<lparr>internals = (), feature_importances_attr = None\<rparr>,
           model_name = ''HistGradientBoostingClassifier'',
           feature_cols = [''has_ramp'', ''stairs_present'', ''random_flag_7'', ''amenity_cafe''],
           useful_feats = [''ramp'', ''amenity''],
           metrics = (),
           n_classes = 3,
           class_mapping = [(0, ''not_accessible''), (1, ''limited''), (2, ''accessible'')]\<rparr>,
      snd (write_outputs (example_externals heuristic_artifact) example_file
             (MODEL_PATH example_file (files example_world)) example_world))"
proof -
  have "fst (write_outputs (example_externals heuristic_artifact) example_file
     (MODEL_PATH example_file (files example_world)) example_world) =
     Inr \<lparr>model = \<lparr>internals = (), feature_importances_attr = None\<rparr>,
           model_name = ''HistGradientBoostingClassifier'',
           feature_cols = [''has_ramp'', ''stairs_present'', ''random_flag_7'', ''amenity_cafe''],
           useful_feats = [''ramp'', ''amenity''],
           metrics = (),
           n_classes = 3,
           class_mapping = [(0, ''not_accessible''), (1, ''limited''), (2, ''accessible'')]\<rparr>"
    by (simp add: example_defs path_defs fs_defs run_defs)
  then show ?thesis by (metis prod.collapse)
qed

lemma example_import_fails:
  "test_inference (example_externals a) p n w0 = (Inl ImportError, w0)"
  by (simp add: test_inference_def and_then_def result_def example_externals_def)

lemma heuristic_outputs_broken_runtime:
  "write_outputs (broken_runtime_externals heuristic_artifact) example_file
     (MODEL_PATH example_file (files example_world)) example_world =
     (Inr \<lparr>model = \<lparr>internals = (), feature_importances_attr = None\<rparr>,
           model_name = ''HistGradientBoostingClassifier'',
           feature_cols = [''has_ramp'', ''stairs_present'', ''random_flag_7'', ''amenity_cafe''],
           useful_feats = [''ramp'', ''amenity''],
           metrics = (),
           n_classes = 3,
           class_mapping = [(0, ''not_accessible''), (1, ''limited''), (2, ''accessible'')]\<rparr>,
      snd (write_outputs (broken_runtime_externals heuristic_artifact) example_file
             (MODEL_PATH example_file (files example_world)) example_world))"
proof -
  have "fst (write_outputs (broken_runtime_externals heuristic_artifact) example_file
     (MODEL_PATH example_file (files example_world)) example_world) =
     Inr \<lparr>model = \<lparr>internals = (), feature_importances_attr = None\<rparr>,
           model_name = ''HistGradientBoostingClassifier'',
           feature_cols = [''has_ramp'', ''stairs_present'', ''random_flag_7'', ''amenity_cafe''],
           useful_feats = [''ramp'', ''amenity''],
           metrics = (),
           n_classes = 3,
           class_mapping = [(0, ''not_accessible''), (1, ''limited''), (2, ''accessible'')]\<rparr>"
    by (simp add: broken_runtime_externals_def example_defs path_defs fs_defs run_defs)
  then show ?thesis by (metis prod.collapse)
qed

lemma broken_runtime_raises:
  assumes "files w0 p = Some (File c)" and "p \<noteq> []"
  shows "test_inference (broken_runtime_externals a) p n w0 =
     (Inl (OtherException ''unavailable''), w0)"
  using assms
  by (simp add: test_inference_def and_then_def result_def reading_def open_session_def
      read_file_def node_at_def broken_runtime_externals_def example_externals_def)

theorem smoke_test_cannot_fail_the_run_witness:
  "fst (write_outputs (example_externals heuristic_artifact) example_file
          (MODEL_PATH example_file (files example_world)) example_world) =
     Inr \<lparr>model = \<lparr>internals = (), feature_importances_attr = None\<rparr>,
           model_name = ''HistGradientBoostingClassifier'',
           feature_cols = [''has_ramp'', ''stairs_present'', ''random_flag_7'', ''amenity_cafe''],
           useful_feats = [''ramp'', ''amenity''],
           metrics = (),
           n_classes = 3,
           class_mapping = [(0, ''not_accessible''), (1, ''limited''), (2, ''accessible'')]\<rparr> \<and>
   import_onnxruntime (example_externals heuristic_artifact) = Some ImportError \<and>
   fst (script (example_externals heuristic_artifact) example_file example_world) = Inr () \<and>
   files (snd (script (example_externals heuristic_artifact) example_file example_world)) =
     files (snd (write_outputs (example_externals heuristic_artifact) example_file
                   (MODEL_PATH example_file (files example_world)) example_world)) \<and>
   stdout (snd (script (example_externals heuristic_artifact) example_file example_world)) =
     stdout (snd (write_outputs (example_externals heuristic_artifact) example_file
                    (MODEL_PATH example_file (files example_world)) example_world)) @
       [TestingInference, OrtNotInstalled, Done] \<and>
   fst (script (broken_runtime_externals heuristic_artifact) example_file example_world) =
     Inr () \<and>
   stdout (snd (script (broken_runtime_externals heuristic_artifact) example_file example_world)) =
     stdout (snd (write_outputs (broken_runtime_externals heuristic_artifact) example_file
                    (MODEL_PATH example_file (files example_world)) example_world)) @
       [TestingInference, TestInferenceError (OtherException ''unavailable''), Done]"
proof -
  let ?L = "\<lparr>model = \<lparr>internals = (), feature_importances_attr = None\<rparr>,
           model_name = ''HistGradientBoostingClassifier'',
           feature_cols = [''has_ramp'', ''stairs_present'', ''random_flag_7'', ''amenity_cafe''],
           useful_feats = [''ramp'', ''amenity''],
           metrics = (),
           n_classes = 3,
           class_mapping = [(0, ''not_accessible''), (1, ''limited''), (2, ''accessible'')]\<rparr>
           :: (unit, unit) loaded"
  let ?w1 = "snd (write_outputs (example_externals heuristic_artifact) example_file
                    (MODEL_PATH example_file (files example_world)) example_world)"
  let ?v1 = "snd (write_outputs (broken_runtime_externals heuristic_artifact) example_file
                    (MODEL_PATH example_file (files example_world)) example_world)"
  note run_ok = smoke_test_cannot_fail_the_run [OF heuristic_outputs]
  note run_broken = smoke_test_cannot_fail_the_run [OF heuristic_outputs_broken_runtime]
  from run_ok have a: "fst (script (example_externals heuristic_artifact) example_file example_world) =
      Inr ()"
    and b: "files (snd (script (example_externals heuristic_artifact) example_file example_world)) =
      files ?w1"
    by simp_all
  from run_ok have caught: "\<forall>e w2.
      test_inference (example_externals heuristic_artifact) (ONNX_OUTPUT_PATH example_file)
        (length (feature_cols ?L))
        (?w1\<lparr>stdout := stdout ?w1 @ [TestingInference]\<rparr>) = (Inl e, w2) \<longrightarrow>
      script (example_externals heuristic_artifact) example_file example_world =
        (Inr (),
         w2\<lparr>stdout := stdout w2 @
              [if e = ImportError then OrtNotInstalled else TestInferenceError e, Done]\<rparr>)"
    by (elim conjE)
  from caught [rule_format, OF example_import_fails]
  have c: "stdout (snd (script (example_externals heuristic_artifact) example_file example_world)) =
      stdout ?w1 @ [TestingInference, OrtNotInstalled, Done]"
    by simp
  have d: "import_onnxruntime (example_externals heuristic_artifact) = Some ImportError"
    by (simp add: example_externals_def)
  have e: "fst (write_outputs (example_externals heuristic_artifact) example_file
          (MODEL_PATH example_file (files example_world)) example_world) = Inr ?L"
    using heuristic_outputs by (metis fst_conv)
  from run_broken
  have f: "fst (script (broken_runtime_externals heuristic_artifact) example_file example_world) =
      Inr ()"
    by simp
  from run_broken obtain g where
    g: "files ?v1 (ONNX_OUTPUT_PATH example_file) = Some (File (Bytes g))"
    by blast
  have ne: "ONNX_OUTPUT_PATH example_file \<noteq> []" by (simp add: ONNX_OUTPUT_PATH_def)
  from g have g': "files (?v1\<lparr>stdout := stdout ?v1 @ [TestingInference]\<rparr>)
      (ONNX_OUTPUT_PATH example_file) = Some (File (Bytes g))"
    by simp
  from run_broken have caught_broken: "\<forall>e w2.
      test_inference (broken_runtime_externals heuristic_artifact) (ONNX_OUTPUT_PATH example_file)
        (length (feature_cols ?L))
        (?v1\<lparr>stdout := stdout ?v1 @ [TestingInference]\<rparr>) = (Inl e, w2) \<longrightarrow>
      script (broken_runtime_externals heuristic_artifact) example_file example_world =
        (Inr (),
         w2\<lparr>stdout := stdout w2 @
              [if e = ImportError then OrtNotInstalled else TestInferenceError e, Done]\<rparr>)"
    by (elim conjE)
  from caught_broken [rule_format, OF broken_runtime_raises [OF g' ne]]
  have h: "stdout (snd (script (broken_runtime_externals heuristic_artifact) example_file
      example_world)) =
      stdout ?v1 @ [TestingInference, TestInferenceError (OtherException ''unavailable''), Done]"
    by simp
  show ?thesis
    by (intro conjI e d a b c f h)
qed

end
